theory Spec2Isabelle
  imports Complex_Main "HOL-Library.Log_Nat"
begin

section \<open>The realtime layer of backend/server.ts\<close>

text \<open>
  The development embeds the Socket.IO part of \<^verbatim>\<open>src/backend/server.ts\<close>: the
  authentication middleware (\<^verbatim>\<open>io.use\<close>), the connection handler with its event
  handlers, and the two mock services the \<^verbatim>\<open>log_activity\<close> handler calls
  (\<^verbatim>\<open>calculateCarbonFootprint\<close>, \<^verbatim>\<open>generatePersonalizedRecommendations\<close>).

  Conventions of the model.
  \<^item> A JavaScript number is an IEEE 754 binary64 value: a finite double (its exact value,
    a rational), negative zero, an infinity or \<^verbatim>\<open>NaN\<close>. The operator \<^verbatim>\<open>*\<close> rounds
    the exact product to the nearest double, ties to even, with gradual underflow and
    overflow to infinity.
  \<^item> A payload is an \<open>option\<close>: \<open>None\<close> is a \<^verbatim>\<open>null\<close> or
    \<^verbatim>\<open>undefined\<close> payload, on which the destructuring assignment at the head of a
    handler throws. Any other payload destructures; a field it lacks is \<^verbatim>\<open>undefined\<close>.
  \<^item> The fields of a \<^verbatim>\<open>log_activity\<close> payload are arbitrary JSON values (\<open>json\<close>), and
    the conversions the calculation applies to them (\<^verbatim>\<open>ToPropertyKey\<close>,
    \<^verbatim>\<open>ToNumber\<close>, \<^verbatim>\<open>ToBoolean\<close>) are modelled, with the \<^verbatim>\<open>TypeError\<close> they raise on
    an object that has no primitive value. The webinar id of the webinar handlers and the
    token of the handshake are a \<open>string option\<close>, \<open>None\<close> being \<^verbatim>\<open>undefined\<close>.
  \<^item> What the JavaScript engine fixes and this repository does not (the properties of the
    built-in objects, the conversions between strings and numbers) is a parameter
    (record \<open>js_engine\<close>); so are the clock, the random generator and \<^verbatim>\<open>uuidv4\<close>
    (record \<open>env\<close>).
\<close>

subsection \<open>JavaScript numbers\<close>

datatype js_error = TypeError

datatype jsnum = Num rat | NegZero | PosInfinity | NegInfinity | NaN

text \<open>
  The finite doubles are the numbers \<^verbatim>\<open>m * 2^j / 2^1074\<close>, of either sign, with
  \<^verbatim>\<open>m < 2^53\<close> and \<^verbatim>\<open>j + 53 <= 1074 + 1024\<close>: all are multiples of
  \<^verbatim>\<open>2^-1074\<close>, and the largest is just below \<^verbatim>\<open>2^1024\<close>.
\<close>

definition min_exponent :: nat where
  "min_exponent = 1074"

definition max_exponent :: nat where
  "max_exponent = 1024"

text \<open>Rounding a rational to the nearest integer, a tie to the even one.\<close>

definition round_half_even :: "rat \<Rightarrow> int" where
  "round_half_even y =
     (let f = \<lfloor>y\<rfloor>; r = y - of_int f
      in if r < 1 / 2 then f else if 1 / 2 < r then f + 1 else if even f then f else f + 1)"

text \<open>
  The spacing of the doubles around a magnitude \<open>x\<close> is \<^verbatim>\<open>2^k / 2^1074\<close>, where
  \<open>k\<close> is the number of bits that the integer part of \<^verbatim>\<open>x * 2^1074\<close> has beyond 53
  (none in the subnormal range and in the lowest normal binade).
\<close>

definition quantum :: "rat \<Rightarrow> nat" where
  "quantum x = floorlog 2 (nat \<lfloor>x * 2 ^ min_exponent\<rfloor>) - 53"

text \<open>
  Rounding a magnitude, a rational that is not negative, to 53 significant bits: the
  nearest multiple of the spacing. A result of \<^verbatim>\<open>2^1024\<close> or more is an overflow.
\<close>

definition round_mag :: "rat \<Rightarrow> rat" where
  "round_mag x =
     of_int (round_half_even (x * 2 ^ min_exponent / 2 ^ quantum x) * 2 ^ quantum x)
     / 2 ^ min_exponent"

fun negative :: "jsnum \<Rightarrow> bool" where
  "negative (Num r) = (r < 0)"
| "negative NegZero = True"
| "negative NegInfinity = True"
| "negative _ = False"

text \<open>The magnitude of a number, \<open>None\<close> for the infinities (and for NaN).\<close>

fun magnitude :: "jsnum \<Rightarrow> rat option" where
  "magnitude (Num r) = Some \<bar>r\<bar>"
| "magnitude NegZero = Some 0"
| "magnitude _ = None"

definition infinity :: "bool \<Rightarrow> jsnum" where
  "infinity s = (if s then NegInfinity else PosInfinity)"

text \<open>The double with sign \<open>s\<close> (true: negative) and the rounded magnitude \<open>m\<close>.\<close>

definition make_double :: "bool \<Rightarrow> rat \<Rightarrow> jsnum" where
  "make_double s m =
     (if 2 ^ max_exponent \<le> m then infinity s
      else if m = 0 then (if s then NegZero else Num 0)
      else Num (if s then - m else m))"

text \<open>The value of a decimal literal of the source such as \<^verbatim>\<open>0.2\<close>: the nearest double.\<close>

definition js_literal :: "rat \<Rightarrow> jsnum" where
  "js_literal r = make_double (r < 0) (round_mag \<bar>r\<bar>)"

text \<open>
  The operator \<^verbatim>\<open>*\<close> on two numbers (\<^verbatim>\<open>Number::multiply\<close>): NaN is contagious,
  infinity times zero is NaN, the sign is the exclusive or of the signs, and a finite
  product is rounded.
\<close>

definition js_mul :: "jsnum \<Rightarrow> jsnum \<Rightarrow> jsnum" where
  "js_mul a b =
     (if a = NaN \<or> b = NaN then NaN
      else
        case (magnitude a, magnitude b) of
          (Some m, Some n) \<Rightarrow> make_double (negative a \<noteq> negative b) (round_mag (m * n))
        | (Some m, None) \<Rightarrow> if m = 0 then NaN else infinity (negative a \<noteq> negative b)
        | (None, Some n) \<Rightarrow> if n = 0 then NaN else infinity (negative a \<noteq> negative b)
        | (None, None) \<Rightarrow> infinity (negative a \<noteq> negative b))"

subsection \<open>JavaScript values\<close>

text \<open>
  The values a property read on one of the emission-factor objects can produce: nothing,
  a number of the table, or a built-in inherited from \<^verbatim>\<open>Object.prototype\<close> (a function,
  or \<^verbatim>\<open>Object.prototype\<close> itself under \<^verbatim>\<open>__proto__\<close>), named by the key that
  reached it.
\<close>

datatype jsval = JSUndefined | JSNumber jsnum | JSBuiltin string

text \<open>\<^verbatim>\<open>ToBoolean\<close>: what \<^verbatim>\<open>||\<close> and \<^verbatim>\<open>? :\<close> test.\<close>

fun truthy_number :: "jsnum \<Rightarrow> bool" where
  "truthy_number (Num r) = (r \<noteq> 0)"
| "truthy_number NegZero = False"
| "truthy_number NaN = False"
| "truthy_number _ = True"

fun truthy :: "jsval \<Rightarrow> bool" where
  "truthy JSUndefined = False"
| "truthy (JSNumber n) = truthy_number n"
| "truthy (JSBuiltin _) = True"

definition js_or :: "jsval \<Rightarrow> jsval \<Rightarrow> jsval" where
  "js_or a b = (if truthy a then a else b)"

text \<open>
  \<^verbatim>\<open>ToNumber\<close>, applied by \<^verbatim>\<open>*\<close> to its operands. A function, and
  \<^verbatim>\<open>Object.prototype\<close>, convert through their string form, which is no numeral.
\<close>

fun to_number :: "jsval \<Rightarrow> jsnum" where
  "to_number JSUndefined = NaN"
| "to_number (JSNumber n) = n"
| "to_number (JSBuiltin _) = NaN"

text \<open>A string is truthy unless it is empty; \<^verbatim>\<open>undefined\<close> is falsy.\<close>

fun truthy_string :: "string option \<Rightarrow> bool" where
  "truthy_string None = False"
| "truthy_string (Some s) = (s \<noteq> [])"

text \<open>The rendering of a string, or of \<^verbatim>\<open>undefined\<close>, inside a template literal.\<close>

fun to_string :: "string option \<Rightarrow> string" where
  "to_string None = ''undefined''"
| "to_string (Some s) = s"

text \<open>
  The values JSON carries, which is what a client can put into a payload;
  \<open>JUndefined\<close> is a missing field. An object is the list of its own properties.
\<close>

datatype json =
    JUndefined | JNull | JBool bool | JNumber jsnum | JString string
  | JArray "json list" | JObject "(string \<times> json) list"

text \<open>
  What the engine fixes. \<open>builtin c u\<close>: when \<open>c\<close> names a property of
  \<^verbatim>\<open>Object.prototype\<close>, the outcome of \<^verbatim>\<open>emissionFactors[c]?.[u] || 1\<close> converted by
  \<^verbatim>\<open>ToNumber\<close>, the receiver of \<^verbatim>\<open>?.[u]\<close> being a built-in whose properties (and the
  getters among them that throw) are not part of this repository.
  \<open>string_to_number\<close> is \<^verbatim>\<open>StringToNumber\<close> and \<open>number_to_string\<close> is
  \<^verbatim>\<open>Number::toString\<close> of ECMA-262.
\<close>

record js_engine =
  builtin :: "string \<Rightarrow> string \<Rightarrow> js_error + jsnum"
  string_to_number :: "string \<Rightarrow> jsnum"
  number_to_string :: "jsnum \<Rightarrow> string"

text \<open>
  \<^verbatim>\<open>ToString\<close> of a JSON value, which is also its \<^verbatim>\<open>ToPropertyKey\<close>. An array is
  joined by \<^verbatim>\<open>Array.prototype.toString\<close>, its \<^verbatim>\<open>null\<close> and \<^verbatim>\<open>undefined\<close>
  elements giving the empty string. An object goes through \<^verbatim>\<open>OrdinaryToPrimitive\<close>:
  the inherited \<^verbatim>\<open>valueOf\<close> returns the object itself and the inherited
  \<^verbatim>\<open>toString\<close> returns \<^verbatim>\<open>[object Object]\<close>; an own property named
  \<^verbatim>\<open>valueOf\<close> or \<^verbatim>\<open>toString\<close> holds a JSON value, which is not callable, so that
  an object with an own \<^verbatim>\<open>toString\<close> has no primitive value: \<^verbatim>\<open>TypeError\<close>.
\<close>

fun ToString :: "js_engine \<Rightarrow> json \<Rightarrow> js_error + string"
  and join_elements :: "js_engine \<Rightarrow> json list \<Rightarrow> js_error + string" where
  "ToString g JUndefined = Inr ''undefined''"
| "ToString g JNull = Inr ''null''"
| "ToString g (JBool b) = Inr (if b then ''true'' else ''false'')"
| "ToString g (JNumber n) = Inr (number_to_string g n)"
| "ToString g (JString s) = Inr s"
| "ToString g (JArray xs) = join_elements g xs"
| "ToString g (JObject ps) =
     (if ''toString'' \<in> fst ` set ps then Inl TypeError else Inr ''[object Object]'')"
| "join_elements g [] = Inr []"
| "join_elements g (x # xs) =
     (case (if x = JUndefined \<or> x = JNull then Inr [] else ToString g x) of
        Inl err \<Rightarrow> Inl err
      | Inr s \<Rightarrow>
          if xs = [] then Inr s
          else (case join_elements g xs of
                  Inl err \<Rightarrow> Inl err
                | Inr t \<Rightarrow> Inr (s @ '','' @ t)))"

definition ToPropertyKey :: "js_engine \<Rightarrow> json \<Rightarrow> js_error + string" where
  "ToPropertyKey g v = ToString g v"

text \<open>
  \<^verbatim>\<open>ToNumber\<close> of a JSON value: an array or an object converts through its primitive
  value, the string above.
\<close>

fun ToNumber :: "js_engine \<Rightarrow> json \<Rightarrow> js_error + jsnum" where
  "ToNumber g JUndefined = Inr NaN"
| "ToNumber g JNull = Inr (Num 0)"
| "ToNumber g (JBool b) = Inr (Num (if b then 1 else 0))"
| "ToNumber g (JNumber n) = Inr n"
| "ToNumber g (JString s) = Inr (string_to_number g s)"
| "ToNumber g v =
     (case ToString g v of
        Inl err \<Rightarrow> Inl err
      | Inr s \<Rightarrow> Inr (string_to_number g s))"

fun ToBoolean :: "json \<Rightarrow> bool" where
  "ToBoolean JUndefined = False"
| "ToBoolean JNull = False"
| "ToBoolean (JBool b) = b"
| "ToBoolean (JNumber n) = truthy_number n"
| "ToBoolean (JString s) = (s \<noteq> [])"
| "ToBoolean _ = True"

subsection \<open>calculateCarbonFootprint\<close>

text \<open>
  The object literal \<^verbatim>\<open>emissionFactors\<close>: its own properties, in source order, each
  factor as the decimal literal the source writes.
\<close>

definition emissionFactors :: "(string \<times> (string \<times> rat) list) list" where
  "emissionFactors =
    [(''transportation'',
        [(''car_km'', 2 / 10), (''bus_km'', 5 / 100), (''train_km'', 3 / 100),
         (''flight_km'', 15 / 100)]),
     (''energy'',
        [(''electricity_kwh'', 4 / 10), (''gas_m3'', 2), (''heating_oil_l'', 25 / 10)]),
     (''diet'',
        [(''beef_kg'', 60), (''chicken_kg'', 6), (''vegetables_kg'', 2),
         (''dairy_l'', 32 / 10)])]"

text \<open>
  An object literal inherits from \<^verbatim>\<open>Object.prototype\<close>, and \<^verbatim>\<open>obj[key]\<close> reads
  inherited properties too. These are the property names of \<^verbatim>\<open>Object.prototype\<close>
  (ECMA-262, with its Annex B).
\<close>

definition object_prototype :: "string list" where
  "object_prototype =
    [''constructor'', ''hasOwnProperty'', ''isPrototypeOf'', ''propertyIsEnumerable'',
     ''toLocaleString'', ''toString'', ''valueOf'', ''__proto__'',
     ''__defineGetter__'', ''__defineSetter__'', ''__lookupGetter__'',
     ''__lookupSetter__'']"

text \<open>\<^verbatim>\<open>tbl[unit]\<close> on one of the three nested literals.\<close>

definition get_unit :: "(string \<times> rat) list \<Rightarrow> string \<Rightarrow> jsval" where
  "get_unit tbl unit =
     (case map_of tbl unit of
        Some f \<Rightarrow> JSNumber (js_literal f)
      | None \<Rightarrow> if unit \<in> set object_prototype then JSBuiltin unit else JSUndefined)"

text \<open>
  \<^verbatim>\<open>const factor = emissionFactors[activity_type]?.[unit] || 1\<close>, already converted by
  \<^verbatim>\<open>ToNumber\<close> as the multiplication will. Each member access converts its key, which
  may throw; when \<^verbatim>\<open>emissionFactors[activity_type]\<close> is \<^verbatim>\<open>undefined\<close> the optional
  chain ends there and \<open>unit\<close> is not converted.
\<close>

definition factor_of :: "js_engine \<Rightarrow> json \<Rightarrow> json \<Rightarrow> js_error + jsnum" where
  "factor_of g activity_type unit =
     (case ToPropertyKey g activity_type of
        Inl err \<Rightarrow> Inl err
      | Inr c \<Rightarrow>
          (case map_of emissionFactors c of
             Some tbl \<Rightarrow>
               (case ToPropertyKey g unit of
                  Inl err \<Rightarrow> Inl err
                | Inr un \<Rightarrow> Inr (to_number (js_or (get_unit tbl un) (JSNumber (Num 1)))))
           | None \<Rightarrow>
               if c \<in> set object_prototype
               then (case ToPropertyKey g unit of
                       Inl err \<Rightarrow> Inl err
                     | Inr un \<Rightarrow> builtin g c un)
               else Inr (to_number (js_or JSUndefined (JSNumber (Num 1))))))"

record footprint =
  fp_activity_type :: json
  fp_quantity :: json
  fp_unit :: json
  co2_equivalent_kg :: jsnum
  calculation_method :: string
  location_factor :: rat
  calculated_at :: string

text \<open>
  \<^verbatim>\<open>const co2_impact = quantity * factor\<close> converts \<open>quantity\<close> by \<^verbatim>\<open>ToNumber\<close>,
  which may throw, and multiplies.
\<close>

definition calculateCarbonFootprint ::
  "js_engine \<Rightarrow> string \<Rightarrow> json \<Rightarrow> json \<Rightarrow> json \<Rightarrow> string \<Rightarrow> js_error + footprint" where
  "calculateCarbonFootprint g now activity_type quantity unit location =
     (case factor_of g activity_type unit of
        Inl err \<Rightarrow> Inl err
      | Inr factor \<Rightarrow>
          (case ToNumber g quantity of
             Inl err \<Rightarrow> Inl err
           | Inr q \<Rightarrow>
               Inr \<lparr> fp_activity_type = activity_type,
                     fp_quantity = quantity,
                     fp_unit = unit,
                     co2_equivalent_kg = js_mul q factor,
                     calculation_method = ''IPCC Guidelines'',
                     location_factor = (if location = ''US'' then 1 else 8 / 10),
                     calculated_at = now \<rparr>))"

subsection \<open>generatePersonalizedRecommendations\<close>

record recommendation =
  rec_id :: string
  rec_title :: string
  rec_content :: string
  rec_impact :: rat
  rec_difficulty :: string
  rec_category :: string
  estimated_co2_savings :: rat
  rec_timeframe :: string

text \<open>The literal \<^verbatim>\<open>mockRecommendations\<close>; \<open>uuid n\<close> is the n-th result of \<^verbatim>\<open>uuidv4()\<close>.\<close>

definition mockRecommendations :: "(nat \<Rightarrow> string) \<Rightarrow> recommendation list" where
  "mockRecommendations uuid =
    [\<lparr> rec_id = uuid 0,
       rec_title = ''Switch to LED bulbs'',
       rec_content = ''Replace incandescent bulbs with LED alternatives to save energy'',
       rec_impact = 155 / 10,
       rec_difficulty = ''beginner'',
       rec_category = ''energy'',
       estimated_co2_savings = 253 / 10,
       rec_timeframe = ''1 week'' \<rparr>,
     \<lparr> rec_id = uuid 1,
       rec_title = ''Use public transportation 3x per week'',
       rec_content = ''Reduce car dependency by taking buses or trains for regular commutes'',
       rec_impact = 452 / 10,
       rec_difficulty = ''intermediate'',
       rec_category = ''transportation'',
       estimated_co2_savings = 1208 / 10,
       rec_timeframe = ''1 month'' \<rparr>,
     \<lparr> rec_id = uuid 2,
       rec_title = ''Start composting organic waste'',
       rec_content = ''Set up a home composting system to reduce landfill waste'',
       rec_impact = 221 / 10,
       rec_difficulty = ''advanced'',
       rec_category = ''waste'',
       estimated_co2_savings = 654 / 10,
       rec_timeframe = ''2 weeks'' \<rparr>]"

record recommendations =
  recs_user_id :: string
  recs_list :: "recommendation list"
  generated_at :: string
  next_refresh :: string

text \<open>
  The clock and the generators a handler reads: \<open>now\<close> is
  \<^verbatim>\<open>new Date().toISOString()\<close>, \<open>in_a_week\<close> the same seven days later.
\<close>

record env =
  now :: string
  in_a_week :: string
  uuidv4 :: "nat \<Rightarrow> string"
  random :: rat

text \<open>
  \<^verbatim>\<open>category ? mockRecommendations.filter(r => r.category === category) : mockRecommendations\<close>:
  the strict equality holds only when the field is that very string.
\<close>

definition generatePersonalizedRecommendations ::
  "env \<Rightarrow> string \<Rightarrow> json \<Rightarrow> recommendations" where
  "generatePersonalizedRecommendations e user_id category =
     \<lparr> recs_user_id = user_id,
       recs_list =
         (if ToBoolean category
          then filter (\<lambda>r. JString (rec_category r) = category) (mockRecommendations (uuidv4 e))
          else mockRecommendations (uuidv4 e)),
       generated_at = now e,
       next_refresh = in_a_week e \<rparr>"

subsection \<open>Events sent to clients\<close>

record user =
  user_id :: string
  username :: string
  email :: string
  created_at :: string

text \<open>The four fields the handler destructures from a \<^verbatim>\<open>log_activity\<close> payload.\<close>

record activity_report =
  category :: json
  quantity :: json
  unit :: json
  description :: json

record activityEvent =
  ae_user_id :: string
  ae_category :: json
  ae_impact :: jsnum
  ae_timestamp :: string
  ae_description :: json

record goal_update =
  gu_category :: json
  gu_target :: json
  gu_timeframe :: json

record goalEvent =
  ge_user_id :: string
  ge_category :: json
  ge_target :: json
  ge_timeframe :: json
  ge_updated_at :: string

record progress_update =
  pu_challenge_id :: json
  pu_activity_data :: json

record progressEvent =
  pe_challenge_id :: json
  pe_user_id :: string
  pe_progress :: rat
  pe_achievements :: "(string \<times> string) list"
  pe_updated_at :: string

record webinar_text =
  wt_webinar_id :: "string option"
  wt_message_text :: json

record messageEvent =
  me_webinar_id :: "string option"
  me_message_text :: json
  me_sender_id :: string
  me_sender_username :: string
  me_timestamp :: string

text \<open>An emitted event: its name and its payload.\<close>

datatype message =
    Activity_logged activityEvent
  | Recommendation_updated recommendations
  | Goal_updated goalEvent
  | Challenge_progress progressEvent
  | New_webinar_message messageEvent
  | Webinar_joined "string option" string
  | Webinar_left "string option" string
  | Error_event string

subsection \<open>The Socket.IO server: connections, rooms, emission\<close>

type_synonym sid = nat
type_synonym room = string

text \<open>
  The state of the \<^verbatim>\<open>io\<close> server. \<open>sockets\<close> holds the connected sockets with the
  \<^verbatim>\<open>socket.user\<close> the middleware attached; \<open>rooms\<close> and \<open>sids\<close> are the two maps of
  the in-memory adapter (room to member sockets, socket to joined rooms); \<open>outbox c\<close> lists,
  oldest first, the events the server has emitted to connection \<open>c\<close>. The room each socket
  has under its own id, a random name that Socket.IO generates, is left out.
\<close>

record server =
  sockets :: "sid \<rightharpoonup> user"
  rooms :: "room \<rightharpoonup> sid set"
  sids :: "sid \<rightharpoonup> room set"
  outbox :: "sid \<Rightarrow> message list"

definition init :: server where
  "init = \<lparr> sockets = Map.empty, rooms = Map.empty, sids = Map.empty, outbox = (\<lambda>_. []) \<rparr>"

definition membersOf :: "server \<Rightarrow> room \<Rightarrow> sid set" where
  "membersOf st r = (case rooms st r of None \<Rightarrow> {} | Some m \<Rightarrow> m)"

definition roomsOf :: "server \<Rightarrow> sid \<Rightarrow> room set" where
  "roomsOf st s = (case sids st s of None \<Rightarrow> {} | Some rs \<Rightarrow> rs)"

text \<open>
  Modelled from the spec: \<^verbatim>\<open>socket.join(room)\<close> is Socket.IO library code, absent
  from the sources. Section 4.2: join adds the connection to the room's member set and the
  room to the connection's membership set, and creates the room record if absent.
\<close>

definition join :: "sid \<Rightarrow> room \<Rightarrow> server \<Rightarrow> server" where
  "join s r st =
     st \<lparr> rooms := (rooms st)(r \<mapsto> insert s (membersOf st r)),
          sids := (sids st)(s \<mapsto> insert r (roomsOf st s)) \<rparr>"

text \<open>
  Modelled from the spec: \<^verbatim>\<open>socket.leave(room)\<close> is Socket.IO library code, absent
  from the sources. Section 4.2: leave removes both sides of the relation; a room that
  becomes empty is dropped; leaving a room never joined is a no-op.
\<close>

definition leave :: "sid \<Rightarrow> room \<Rightarrow> server \<Rightarrow> server" where
  "leave s r st =
     st \<lparr> rooms :=
            (case rooms st r of
               None \<Rightarrow> rooms st
             | Some m \<Rightarrow> if m - {s} = {} then (rooms st)(r := None)
                         else (rooms st)(r \<mapsto> m - {s})),
          sids :=
            (case sids st s of
               None \<Rightarrow> sids st
             | Some rs \<Rightarrow> (sids st)(s \<mapsto> rs - {r})) \<rparr>"

text \<open>
  Modelled from the spec: \<^verbatim>\<open>io.emit\<close> is Socket.IO library code, absent from the
  sources. Section 4.3: scope Global is every known connection. Delivery is the server's
  attempt: a recipient that is unreachable is not modelled.
\<close>

definition io_emit :: "message \<Rightarrow> server \<Rightarrow> server" where
  "io_emit m st =
     st \<lparr> outbox := (\<lambda>c. if c \<in> dom (sockets st) then outbox st c @ [m] else outbox st c) \<rparr>"

text \<open>
  Modelled from the spec: \<^verbatim>\<open>io.to(room).emit\<close> is Socket.IO library code, absent from
  the sources. Section 4.3: scope Room (and scope User, the room \<^verbatim>\<open>user_<id>\<close>) is the
  members of that room.
\<close>

definition io_to_emit :: "room \<Rightarrow> message \<Rightarrow> server \<Rightarrow> server" where
  "io_to_emit r m st =
     st \<lparr> outbox := (\<lambda>c. if c \<in> membersOf st r then outbox st c @ [m] else outbox st c) \<rparr>"

text \<open>
  Modelled from the spec: \<^verbatim>\<open>socket.emit\<close> is Socket.IO library code, absent from the
  sources. Section 7: an event reported to the originating connection reaches that
  connection and no other.
\<close>

definition socket_emit :: "sid \<Rightarrow> message \<Rightarrow> server \<Rightarrow> server" where
  "socket_emit s m st = st \<lparr> outbox := (outbox st)(s := outbox st s @ [m]) \<rparr>"

text \<open>The template literals \<^verbatim>\<open>`user_${socket.user.id}`\<close> and \<^verbatim>\<open>`webinar_${webinar_id}`\<close>.\<close>

definition user_room :: "string \<Rightarrow> room" where
  "user_room uid = ''user_'' @ uid"

definition webinar_room :: "string option \<Rightarrow> room" where
  "webinar_room webinar_id = ''webinar_'' @ to_string webinar_id"

subsection \<open>The authentication middleware\<close>

text \<open>
  The external collaborators of \<^verbatim>\<open>io.use\<close>. \<open>jwt_verify t\<close> is
  \<^verbatim>\<open>jwt.verify(t, JWT_SECRET)\<close>: \<open>None\<close> when it throws (malformed, expired or
  wrongly signed token), otherwise the \<^verbatim>\<open>user_id\<close> of the decoded payload
  (\<open>None\<close> inside when the payload has none). \<open>query_user\<close> is the
  \<^verbatim>\<open>SELECT ... FROM users WHERE id = $1\<close>: \<open>None\<close> when the query rejects, otherwise
  its rows.
\<close>

record auth =
  jwt_verify :: "string \<Rightarrow> string option option"
  query_user :: "string option \<Rightarrow> user list option"

definition authentication_error :: string where
  "authentication_error = ''Authentication error''"

text \<open>
  \<^verbatim>\<open>io.use(async (socket, next) => ...)\<close>: \<open>Inl\<close> is \<^verbatim>\<open>next(new Error(...))\<close>,
  \<open>Inr u\<close> is \<^verbatim>\<open>socket.user = u; next()\<close>. The argument is
  \<^verbatim>\<open>socket.handshake.auth.token\<close>; \<^verbatim>\<open>!token\<close> holds of a missing and of an empty
  token.
\<close>

definition io_use :: "auth \<Rightarrow> string option \<Rightarrow> string + user" where
  "io_use a token =
     (if \<not> truthy_string token then Inl authentication_error
      else
        case jwt_verify a (to_string token) of
          None \<Rightarrow> Inl authentication_error
        | Some decoded_user_id \<Rightarrow>
            (case query_user a decoded_user_id of
               None \<Rightarrow> Inl authentication_error
             | Some [] \<Rightarrow> Inl authentication_error
             | Some (row # _) \<Rightarrow> Inr row))"

subsection \<open>The connection handler and its event handlers\<close>

text \<open>
  \<^verbatim>\<open>io.on('connection', (socket) => ...)\<close> up to the registration of the handlers: the
  socket, carrying the user the middleware attached, joins the user's personal room. From
  then on the socket is among the connected ones and its handlers are registered.
\<close>

definition connection :: "sid \<Rightarrow> user \<Rightarrow> server \<Rightarrow> server" where
  "connection s u st = join s (user_room (user_id u)) (st \<lparr> sockets := (sockets st)(s \<mapsto> u) \<rparr>)"

text \<open>
  A connection attempt: the middleware, then the connection handler. When the middleware
  passes an error to \<^verbatim>\<open>next\<close>, Socket.IO refuses the connection with that error:
  the connection handler does not run and the server keeps its state.
\<close>

definition connect ::
  "auth \<Rightarrow> sid \<Rightarrow> string option \<Rightarrow> server \<Rightarrow> string option \<times> server" where
  "connect a s token st =
     (case io_use a token of
        Inl err \<Rightarrow> (Some err, st)
      | Inr u \<Rightarrow> (None, connection s u st))"

text \<open>
  \<^verbatim>\<open>socket.on('log_activity', async (data) => { try ... catch ... })\<close> on the socket
  \<open>s\<close> of user \<open>u\<close>. The destructuring throws on a missing payload, and
  \<^verbatim>\<open>calculateCarbonFootprint\<close> may throw (in a conversion, or inside a built-in); both
  land in the \<^verbatim>\<open>catch\<close>.
\<close>

definition log_activity ::
  "js_engine \<Rightarrow> env \<Rightarrow> sid \<Rightarrow> user \<Rightarrow> activity_report option \<Rightarrow> server \<Rightarrow> server" where
  "log_activity g e s u data st =
     (case data of
        None \<Rightarrow> socket_emit s (Error_event ''Failed to log activity'') st
      | Some d \<Rightarrow>
          (case calculateCarbonFootprint g (now e) (category d) (quantity d) (unit d) ''US'' of
             Inl err \<Rightarrow> socket_emit s (Error_event ''Failed to log activity'') st
           | Inr impact \<Rightarrow>
               let activity_event =
                     \<lparr> ae_user_id = user_id u,
                       ae_category = category d,
                       ae_impact = co2_equivalent_kg impact,
                       ae_timestamp = now e,
                       ae_description = description d \<rparr>;
                   st1 = io_emit (Activity_logged activity_event) st;
                   updatedRecommendations =
                     generatePersonalizedRecommendations e (user_id u) (category d)
               in socket_emit s (Recommendation_updated updatedRecommendations) st1))"

text \<open>\<^verbatim>\<open>socket.on('update_goal', ...)\<close>.\<close>

definition update_goal :: "env \<Rightarrow> sid \<Rightarrow> user \<Rightarrow> goal_update option \<Rightarrow> server \<Rightarrow> server" where
  "update_goal e s u data st =
     (case data of
        None \<Rightarrow> socket_emit s (Error_event ''Failed to update goal'') st
      | Some d \<Rightarrow>
          let goal_event =
                \<lparr> ge_user_id = user_id u,
                  ge_category = gu_category d,
                  ge_target = gu_target d,
                  ge_timeframe = gu_timeframe d,
                  ge_updated_at = now e \<rparr>
          in io_to_emit (user_room (user_id u)) (Goal_updated goal_event) st)"

text \<open>\<^verbatim>\<open>socket.on('update_challenge_progress', ...)\<close>.\<close>

definition update_challenge_progress ::
  "env \<Rightarrow> sid \<Rightarrow> user \<Rightarrow> progress_update option \<Rightarrow> server \<Rightarrow> server" where
  "update_challenge_progress e s u data st =
     (case data of
        None \<Rightarrow> socket_emit s (Error_event ''Failed to update challenge progress'') st
      | Some d \<Rightarrow>
          let progress_event =
                \<lparr> pe_challenge_id = pu_challenge_id d,
                  pe_user_id = user_id u,
                  pe_progress = min 100 (random e * 100),
                  pe_achievements = [(uuidv4 e 0, now e)],
                  pe_updated_at = now e \<rparr>
          in io_emit (Challenge_progress progress_event) st)"

text \<open>\<^verbatim>\<open>socket.on('webinar_message', ...)\<close>.\<close>

definition webinar_message ::
  "env \<Rightarrow> sid \<Rightarrow> user \<Rightarrow> webinar_text option \<Rightarrow> server \<Rightarrow> server" where
  "webinar_message e s u data st =
     (case data of
        None \<Rightarrow> socket_emit s (Error_event ''Failed to send message'') st
      | Some d \<Rightarrow>
          let message_event =
                \<lparr> me_webinar_id = wt_webinar_id d,
                  me_message_text = wt_message_text d,
                  me_sender_id = user_id u,
                  me_sender_username = username u,
                  me_timestamp = now e \<rparr>
          in io_to_emit (webinar_room (wt_webinar_id d)) (New_webinar_message message_event) st)"

text \<open>
  \<^verbatim>\<open>socket.on('join_webinar', (data) => ...)\<close> and \<^verbatim>\<open>'leave_webinar'\<close>. The payload is
  \<^verbatim>\<open>{ webinar_id }\<close>: the outer \<open>option\<close> is the payload, the inner one the field.
  These two handlers have no \<^verbatim>\<open>try\<close>: on a missing payload the TypeError of the
  destructuring leaves the handler.
\<close>

definition join_webinar :: "sid \<Rightarrow> string option option \<Rightarrow> server \<Rightarrow> js_error + server" where
  "join_webinar s data st =
     (case data of
        None \<Rightarrow> Inl TypeError
      | Some webinar_id \<Rightarrow>
          Inr (socket_emit s (Webinar_joined webinar_id ''Successfully joined webinar'')
                 (join s (webinar_room webinar_id) st)))"

definition leave_webinar :: "sid \<Rightarrow> string option option \<Rightarrow> server \<Rightarrow> js_error + server" where
  "leave_webinar s data st =
     (case data of
        None \<Rightarrow> Inl TypeError
      | Some webinar_id \<Rightarrow>
          Inr (socket_emit s (Webinar_left webinar_id ''Left webinar'')
                 (leave s (webinar_room webinar_id) st)))"

text \<open>
  Modelled from the spec: what Socket.IO does when a socket disconnects is library code,
  absent from the sources (the \<^verbatim>\<open>'disconnect'\<close> handler itself only logs). Section 4.1:
  unregister removes the connection from every room it belongs to and discards its
  identity binding.
\<close>

definition disconnect :: "sid \<Rightarrow> server \<Rightarrow> server" where
  "disconnect s st =
     st \<lparr> sockets := (sockets st)(s := None),
          rooms :=
            (\<lambda>r. if r \<in> roomsOf st s
                  then (if membersOf st r - {s} = {} then None else Some (membersOf st r - {s}))
                  else rooms st r),
          sids := (sids st)(s := None) \<rparr>"

text \<open>
  The events a client process can cause, and how the server reacts to one from socket
  \<open>s\<close>. The handlers exist only on a socket that the connection handler has seen, so an
  event for any other socket id finds no handler.
\<close>

datatype inbound =
    Log_activity "activity_report option"
  | Update_goal "goal_update option"
  | Update_challenge_progress "progress_update option"
  | Webinar_message "webinar_text option"
  | Join_webinar "string option option"
  | Leave_webinar "string option option"
  | Disconnect

fun on_event ::
  "js_engine \<Rightarrow> env \<Rightarrow> sid \<Rightarrow> user \<Rightarrow> inbound \<Rightarrow> server \<Rightarrow> js_error + server" where
  "on_event g e s u (Log_activity data) st = Inr (log_activity g e s u data st)"
| "on_event g e s u (Update_goal data) st = Inr (update_goal e s u data st)"
| "on_event g e s u (Update_challenge_progress data) st =
     Inr (update_challenge_progress e s u data st)"
| "on_event g e s u (Webinar_message data) st = Inr (webinar_message e s u data st)"
| "on_event g e s u (Join_webinar data) st = join_webinar s data st"
| "on_event g e s u (Leave_webinar data) st = leave_webinar s data st"
| "on_event g e s u Disconnect st = Inr (disconnect s st)"

definition receive ::
  "js_engine \<Rightarrow> env \<Rightarrow> sid \<Rightarrow> inbound \<Rightarrow> server \<Rightarrow> js_error + server" where
  "receive g e s ev st =
     (case sockets st s of
        None \<Rightarrow> Inr st
      | Some u \<Rightarrow> on_event g e s u ev st)"

subsection \<open>Notions used in the statements\<close>

text \<open>The entry of the static table for a pair of category and unit, if it has one.\<close>

definition table_factor :: "string \<Rightarrow> string \<Rightarrow> rat option" where
  "table_factor c un =
     (case map_of emissionFactors c of None \<Rightarrow> None | Some tbl \<Rightarrow> map_of tbl un)"

text \<open>
  The finite doubles, and what it is for a double \<open>r\<close> to be nearest to a rational
  \<open>p\<close>: no double is closer.
\<close>

definition is_double :: "rat \<Rightarrow> bool" where
  "is_double d =
     (\<exists>(m::nat) (j::nat). m < 2 ^ 53 \<and> j + 53 \<le> min_exponent + max_exponent
        \<and> \<bar>d\<bar> * 2 ^ min_exponent = of_nat (m * 2 ^ j))"

definition nearest_double :: "rat \<Rightarrow> rat \<Rightarrow> bool" where
  "nearest_double p r = (is_double r \<and> (\<forall>d. is_double d \<longrightarrow> \<bar>p - r\<bar> \<le> \<bar>p - d\<bar>))"

text \<open>The value of a finite number, both zeros being 0.\<close>

fun number_value :: "jsnum \<Rightarrow> rat option" where
  "number_value (Num r) = Some r"
| "number_value NegZero = Some 0"
| "number_value _ = None"

text \<open>The entries of a recommendation list that have a given category.\<close>

definition with_category :: "string \<Rightarrow> recommendation list \<Rightarrow> recommendation list" where
  "with_category c rs = filter (\<lambda>r. rec_category r = c) rs"

fun is_recommendation_updated :: "message \<Rightarrow> bool" where
  "is_recommendation_updated (Recommendation_updated _) = True"
| "is_recommendation_updated _ = False"

fun is_error_event :: "message \<Rightarrow> bool" where
  "is_error_event (Error_event _) = True"
| "is_error_event _ = False"

text \<open>Every connected socket is a member of the personal room of its user.\<close>

definition in_own_room :: "server \<Rightarrow> bool" where
  "in_own_room st = (\<forall>c u. sockets st c = Some u \<longrightarrow> c \<in> membersOf st (user_room (user_id u)))"

text \<open>
  The two maps of the adapter agree: a socket is in the member set of a room exactly when
  the room is in the membership set of the socket.
\<close>

definition consistent :: "server \<Rightarrow> bool" where
  "consistent st = (\<forall>c r. (c \<in> membersOf st r) = (r \<in> roomsOf st c))"

text \<open>
  A run of the server: connection attempts and events from clients, in the order the
  event loop takes them; it ends at the first exception that leaves a handler.
\<close>

datatype occurrence =
    Connects sid "string option"
  | Sends sid env inbound

fun run ::
  "auth \<Rightarrow> js_engine \<Rightarrow> occurrence list \<Rightarrow> server \<Rightarrow> js_error + server" where
  "run a g [] st = Inr st"
| "run a g (Connects s token # os) st = run a g os (snd (connect a s token st))"
| "run a g (Sends s e ev # os) st =
     (case receive g e s ev st of
        Inl err \<Rightarrow> Inl err
      | Inr st' \<Rightarrow> run a g os st')"

subsection \<open>Example values\<close>

definition alice :: user where
  "alice = \<lparr> user_id = ''7'', username = ''alice'', email = ''alice@example.org'',
             created_at = ''2024-01-01'' \<rparr>"

definition bob :: user where
  "bob = \<lparr> user_id = ''8'', username = ''bob'', email = ''bob@example.org'',
           created_at = ''2024-01-02'' \<rparr>"

definition example_env :: env where
  "example_env = \<lparr> now = ''2024-05-01T10:00:00.000Z'', in_a_week = ''2024-05-08T10:00:00.000Z'',
                   uuidv4 = (\<lambda>n. if n = 0 then ''a'' else if n = 1 then ''b'' else ''c''),
                   random = 1 / 2 \<rparr>"

text \<open>
  An engine, of which only its being one matters below: its built-ins convert to NaN, no
  string is a numeral and every number prints as 0. A store that holds the two users.
\<close>

definition example_engine :: js_engine where
  "example_engine =
     \<lparr> builtin = (\<lambda>c un. Inr NaN), string_to_number = (\<lambda>s. NaN),
       number_to_string = (\<lambda>n. ''0'') \<rparr>"

definition example_auth :: auth where
  "example_auth =
     \<lparr> jwt_verify = (\<lambda>t. if t = ''token-alice'' then Some (Some ''7'')
                          else if t = ''token-bob'' then Some (Some ''8'')
                          else if t = ''token-ghost'' then Some (Some ''9'')
                          else None),
       query_user = (\<lambda>uid. if uid = Some ''7'' then Some [alice]
                           else if uid = Some ''8'' then Some [bob]
                           else Some []) \<rparr>"

text \<open>Alice and Bob connected, one socket each; and Alice connected from two devices.\<close>

definition example_server :: server where
  "example_server = connection 12 bob (connection 11 alice init)"

definition two_devices :: server where
  "two_devices = connection 12 alice (connection 11 alice init)"

definition car_trip :: "rat \<Rightarrow> activity_report" where
  "car_trip q = \<lparr> category = JString ''transportation'', quantity = JNumber (Num q),
                  unit = JString ''car_km'', description = JString ''commute'' \<rparr>"

section \<open>Properties\<close>

subsection \<open>Rounding to the nearest double\<close>

lemma rhe_half: "\<bar>y - of_int (round_half_even y)\<bar> \<le> 1 / 2"
  unfolding round_half_even_def Let_def
  by (auto simp: abs_if) linarith+

lemma rhe_nearest: "\<bar>y - of_int (round_half_even y)\<bar> \<le> \<bar>y - of_int i\<bar>"
proof (cases "i = round_half_even y")
  case True
  then show ?thesis by simp
next
  case False
  then have "\<bar>i - round_half_even y\<bar> \<ge> 1"
    by linarith
  then have "\<bar>(of_int (i - round_half_even y) :: rat)\<bar> \<ge> 1"
    by (metis of_int_abs of_int_1 of_int_le_iff)
  then have "\<bar>of_int i - (of_int (round_half_even y) :: rat)\<bar> \<ge> 1"
    by simp
  with rhe_half [of y] show ?thesis by linarith
qed

lemma rhe_le:
  assumes "y \<le> of_int c"
  shows "round_half_even y \<le> c"
proof -
  from rhe_half [of y] assms have "(of_int (round_half_even y) :: rat) < of_int c + 1"
    by linarith
  then have "(of_int (round_half_even y) :: rat) < of_int (c + 1)"
    by simp
  then have "round_half_even y < c + 1"
    by (simp only: of_int_less_iff)
  then show ?thesis by simp
qed

lemma rhe_ge:
  assumes "of_int c \<le> y"
  shows "c \<le> round_half_even y"
proof -
  from rhe_half [of y] assms have "(of_int c :: rat) - 1 < of_int (round_half_even y)"
    by linarith
  then have "(of_int (c - 1) :: rat) < of_int (round_half_even y)"
    by simp
  then have "c - 1 < round_half_even y"
    by (simp only: of_int_less_iff)
  then show ?thesis by simp
qed

lemma rhe_less:
  assumes "y < of_int c - 1 / 2"
  shows "round_half_even y < c"
proof -
  from rhe_half [of y] assms have "(of_int (round_half_even y) :: rat) < of_int c"
    by linarith
  then show ?thesis
    by (simp only: of_int_less_iff)
qed

lemma rhe_of_int [simp]: "round_half_even (of_int i) = i"
  by (simp add: round_half_even_def)

text \<open>The scaled magnitude lies in the binade that the quantum names.\<close>

lemma scaled_upper:
  assumes "0 \<le> x"
  shows "x * 2 ^ min_exponent < 2 ^ (quantum x + 53)"
proof -
  let ?X = "x * 2 ^ min_exponent"
  let ?n = "nat \<lfloor>?X\<rfloor>"
  have "?n < 2 ^ floorlog 2 ?n"
    by (cases "?n = 0") (use floorlog_bounds [of ?n 2] in auto)
  also have "\<dots> \<le> 2 ^ (quantum x + 53)"
    by (rule power_increasing) (simp_all add: quantum_def)
  finally have "?n < 2 ^ (quantum x + 53)" .
  then have "\<lfloor>?X\<rfloor> < 2 ^ (quantum x + 53)"
    by (simp add: nat_less_iff)
  then have "\<lfloor>?X\<rfloor> + 1 \<le> 2 ^ (quantum x + 53)" by simp
  then have "(of_int (\<lfloor>?X\<rfloor> + 1) :: rat) \<le> of_int (2 ^ (quantum x + 53))"
    by (simp only: of_int_le_iff)
  moreover have "?X < of_int (\<lfloor>?X\<rfloor> + 1)"
    by linarith
  ultimately show ?thesis by simp
qed

lemma scaled_lower:
  assumes "0 < quantum x"
  shows "2 ^ (quantum x + 52) \<le> x * 2 ^ min_exponent"
proof -
  let ?X = "x * 2 ^ min_exponent"
  let ?n = "nat \<lfloor>?X\<rfloor>"
  from assms have fl: "floorlog 2 ?n = quantum x + 53"
    by (simp add: quantum_def)
  then have "0 < ?n"
    by (cases "?n = 0") (simp_all add: floorlog_def)
  then have "2 ^ (floorlog 2 ?n - 1) \<le> ?n"
    using floorlog_bounds [of ?n 2] by simp
  with fl have "2 ^ (quantum x + 52) \<le> ?n" by (simp add: add.commute)
  then have "int (2 ^ (quantum x + 52)) \<le> int ?n"
    by (simp only: of_nat_le_iff)
  then have "(2::int) ^ (quantum x + 52) \<le> \<lfloor>?X\<rfloor>"
    using \<open>0 < ?n\<close> by simp
  then have "(of_int (2 ^ (quantum x + 52)) :: rat) \<le> of_int \<lfloor>?X\<rfloor>"
    by (simp only: of_int_le_iff)
  also have "\<dots> \<le> ?X" by simp
  finally show ?thesis by simp
qed


lemma round_mag_scaled:
  "round_mag x * 2 ^ min_exponent
   = of_int (round_half_even (x * 2 ^ min_exponent / 2 ^ quantum x) * 2 ^ quantum x)"
  by (simp add: round_mag_def)

lemma nearest_multiple:
  fixes X :: rat
  shows "\<bar>X - of_int (round_half_even (X / 2 ^ k) * 2 ^ k)\<bar> \<le> \<bar>X - of_int (i * 2 ^ k)\<bar>"
proof -
  let ?u = "(2::rat) ^ k"
  have diff: "X - of_int (n * 2 ^ k) = (X / ?u - of_int n) * ?u" for n :: int
    by (simp add: left_diff_distrib)
  have "\<bar>X - of_int (round_half_even (X / ?u) * 2 ^ k)\<bar>
        = \<bar>X / ?u - of_int (round_half_even (X / ?u))\<bar> * ?u"
    by (simp only: diff abs_mult) simp
  also have "\<dots> \<le> \<bar>X / ?u - of_int i\<bar> * ?u"
    by (rule mult_right_mono [OF rhe_nearest]) simp
  also have "\<dots> = \<bar>X - of_int (i * 2 ^ k)\<bar>"
    by (simp only: diff abs_mult) simp
  finally show ?thesis .
qed

lemma round_mag_nearest_scaled:
  assumes "0 \<le> x"
    and "m < 2 ^ 53"
    and D: "\<bar>D\<bar> = of_nat (m * 2 ^ j)"
  shows "\<bar>x * 2 ^ min_exponent - round_mag x * 2 ^ min_exponent\<bar> \<le> \<bar>x * 2 ^ min_exponent - D\<bar>"
proof -
  let ?X = "x * 2 ^ min_exponent"
  let ?k = "quantum x"
  let ?R = "of_int (round_half_even (?X / 2 ^ ?k) * 2 ^ ?k) :: rat"
  have R: "round_mag x * 2 ^ min_exponent = ?R"
    by (rule round_mag_scaled)
  show ?thesis
  proof (cases "?k \<le> j")
    case True
    define i :: int where "i = (if D < 0 then - int (m * 2 ^ (j - ?k)) else int (m * 2 ^ (j - ?k)))"
    have "(2::nat) ^ j = 2 ^ (j - ?k) * 2 ^ ?k"
      using True by (simp flip: power_add)
    then have "m * 2 ^ j = (m * 2 ^ (j - ?k)) * 2 ^ ?k"
      by (simp only: mult.assoc)
    then have "(of_nat (m * 2 ^ j) :: rat) = of_nat ((m * 2 ^ (j - ?k)) * 2 ^ ?k)"
      by (simp only:)
    also have "\<dots> = of_int (int (m * 2 ^ (j - ?k)) * 2 ^ ?k)"
      by simp
    finally have e: "\<bar>D\<bar> = of_int (int (m * 2 ^ (j - ?k)) * 2 ^ ?k)"
      using D by simp
    have "D = of_int (i * 2 ^ ?k)"
    proof (cases "D < 0")
      case True
      with e have "- D = of_int (int (m * 2 ^ (j - ?k)) * 2 ^ ?k)"
        by (simp only: abs_if if_True)
      then have "D = - of_int (int (m * 2 ^ (j - ?k)) * 2 ^ ?k)"
        by linarith
      with True show ?thesis
        by (simp add: i_def)
    next
      case False
      with e have "D = of_int (int (m * 2 ^ (j - ?k)) * 2 ^ ?k)"
        by (simp only: abs_if if_False)
      with False show ?thesis
        by (simp only: i_def if_False)
    qed
    then show ?thesis
      using nearest_multiple [of ?X ?k i] by (simp only: R)
  next
    case False
    then have k: "0 < ?k" and jk: "j + 1 \<le> ?k" by simp_all
    have lo: "2 ^ (?k + 52) \<le> ?X"
      by (rule scaled_lower [OF k])
    have "m * 2 ^ j < 2 ^ 53 * 2 ^ j"
      using assms(2) by simp
    also have "\<dots> = 2 ^ (j + 1 + 52)"
      by (simp add: power_add)
    also have "\<dots> \<le> 2 ^ (?k + 52)"
      using jk by (intro power_increasing) simp_all
    finally have "m * 2 ^ j < 2 ^ (?k + 52)" .
    then have "(of_nat (m * 2 ^ j) :: rat) < of_nat (2 ^ (?k + 52))"
      by (simp only: of_nat_less_iff)
    then have "\<bar>D\<bar> < 2 ^ (?k + 52)"
      using D by simp
    then have dl: "D < 2 ^ (?k + 52)" by linarith
    have "\<bar>?X - ?R\<bar> \<le> \<bar>?X - of_int (2 ^ 52 * 2 ^ ?k)\<bar>"
      by (rule nearest_multiple)
    also have "(of_int (2 ^ 52 * 2 ^ ?k) :: rat) = 2 ^ (?k + 52)"
      by (simp add: power_add)
    finally have "\<bar>?X - ?R\<bar> \<le> \<bar>?X - 2 ^ (?k + 52)\<bar>" .
    also have "\<dots> \<le> \<bar>?X - D\<bar>"
      using lo dl by linarith
    finally show ?thesis
      by (simp only: R)
  qed
qed

lemma is_double_uminus [simp]: "is_double (- d) = is_double d"
  by (simp add: is_double_def)

lemma round_mag_nearest:
  assumes "0 \<le> x" and "is_double d"
  shows "\<bar>x - round_mag x\<bar> \<le> \<bar>x - d\<bar>"
proof -
  from assms(2) obtain m j where m: "m < 2 ^ 53"
    and D: "\<bar>d\<bar> * 2 ^ min_exponent = of_nat (m * 2 ^ j)"
    by (auto simp: is_double_def)
  have "\<bar>d * 2 ^ min_exponent\<bar> = of_nat (m * 2 ^ j)"
    using D by (simp add: abs_mult)
  from round_mag_nearest_scaled [OF assms(1) m this]
  have "\<bar>(x - round_mag x) * 2 ^ min_exponent\<bar> \<le> \<bar>(x - d) * 2 ^ min_exponent\<bar>"
    by (simp add: algebra_simps)
  then have "\<bar>x - round_mag x\<bar> * 2 ^ min_exponent \<le> \<bar>x - d\<bar> * 2 ^ min_exponent"
    by (simp add: abs_mult)
  then show ?thesis
    by simp
qed

lemma round_mag_exact:
  assumes "0 \<le> x" and "is_double x"
  shows "round_mag x = x"
  using round_mag_nearest [OF assms] by simp


lemma mantissa_nonneg:
  assumes "0 \<le> x"
  shows "0 \<le> round_half_even (x * 2 ^ min_exponent / 2 ^ quantum x)"
proof -
  have "(of_int 0 :: rat) \<le> x * 2 ^ min_exponent / 2 ^ quantum x"
    using assms by simp
  then show ?thesis
    by (rule rhe_ge)
qed

lemma round_mag_nonneg:
  assumes "0 \<le> x"
  shows "0 \<le> round_mag x"
  using mantissa_nonneg [OF assms] by (simp add: round_mag_def)

lemma mantissa_le:
  assumes "0 \<le> x"
  shows "round_half_even (x * 2 ^ min_exponent / 2 ^ quantum x) \<le> 2 ^ 53"
proof -
  have "x * 2 ^ min_exponent < 2 ^ (quantum x + 53)"
    by (rule scaled_upper [OF assms])
  then have "x * 2 ^ min_exponent / 2 ^ quantum x < 2 ^ 53"
    by (simp add: power_add field_simps)
  then have "x * 2 ^ min_exponent / 2 ^ quantum x \<le> of_int (2 ^ 53)"
    by simp
  then show ?thesis
    by (rule rhe_le)
qed

lemma mantissa_ge:
  assumes "0 < quantum x"
  shows "2 ^ 52 \<le> round_half_even (x * 2 ^ min_exponent / 2 ^ quantum x)"
proof -
  have "2 ^ (quantum x + 52) \<le> x * 2 ^ min_exponent"
    by (rule scaled_lower [OF assms])
  then have "2 ^ 52 \<le> x * 2 ^ min_exponent / 2 ^ quantum x"
    by (simp add: power_add field_simps)
  then have "of_int (2 ^ 52) \<le> x * 2 ^ min_exponent / 2 ^ quantum x"
    by simp
  then show ?thesis
    by (rule rhe_ge)
qed

lemma round_mag_is_double:
  assumes "0 \<le> x" and "round_mag x < 2 ^ max_exponent"
  shows "is_double (round_mag x)"
proof -
  let ?k = "quantum x"
  let ?n = "round_half_even (x * 2 ^ min_exponent / 2 ^ ?k)"
  have n0: "0 \<le> ?n"
    by (rule mantissa_nonneg [OF assms(1)])
  have R: "\<bar>round_mag x\<bar> * 2 ^ min_exponent = of_int (?n * 2 ^ ?k)"
    using round_mag_nonneg [OF assms(1)] by (simp add: round_mag_scaled)
  have "round_mag x * 2 ^ min_exponent < 2 ^ max_exponent * 2 ^ min_exponent"
    using assms(2) by simp
  then have "(of_int (?n * 2 ^ ?k) :: rat) < of_int (2 ^ (min_exponent + max_exponent))"
    by (simp add: round_mag_scaled power_add mult.commute)
  then have lt: "?n * 2 ^ ?k < 2 ^ (min_exponent + max_exponent)"
    by (simp only: of_int_less_iff)
  show ?thesis
  proof (cases "?n < 2 ^ 53")
    case True
    have "?k + 53 \<le> min_exponent + max_exponent"
    proof (rule ccontr)
      assume "\<not> ?k + 53 \<le> min_exponent + max_exponent"
      then have big: "min_exponent + max_exponent \<le> ?k + 52" and "0 < ?k"
        by (simp_all add: min_exponent_def max_exponent_def)
      then have "2 ^ 52 \<le> ?n"
        using mantissa_ge by blast
      then have "(2::int) ^ 52 * 2 ^ ?k \<le> ?n * 2 ^ ?k"
        by (rule mult_right_mono) simp
      moreover have "(2::int) ^ (?k + 52) = 2 ^ 52 * 2 ^ ?k"
        by (simp only: power_add mult.commute)
      moreover have "(2::int) ^ (min_exponent + max_exponent) \<le> 2 ^ (?k + 52)"
        using big by (intro power_increasing) simp_all
      ultimately show False
        using lt by linarith
    qed
    moreover have "nat ?n < 2 ^ 53"
      using True n0 by (simp add: nat_less_iff)
    moreover have "\<bar>round_mag x\<bar> * 2 ^ min_exponent = of_nat (nat ?n * 2 ^ ?k)"
      using R n0 by simp
    ultimately show ?thesis
      unfolding is_double_def by blast
  next
    case False
    with mantissa_le [OF assms(1)] have n: "?n = 2 ^ 53" by simp
    have "(2::int) ^ (?k + 53) = 2 ^ 53 * 2 ^ ?k"
      by (simp only: power_add mult.commute)
    with lt n have "(2::int) ^ (?k + 53) < 2 ^ (min_exponent + max_exponent)"
      by (simp only:)
    then have "?k + 53 < min_exponent + max_exponent"
      by (simp only: power_strict_increasing_iff)
    then have "(?k + 1) + 53 \<le> min_exponent + max_exponent"
      by simp
    moreover have "(2::nat) ^ 52 < 2 ^ 53"
      by simp
    moreover have "\<bar>round_mag x\<bar> * 2 ^ min_exponent = of_nat (2 ^ 52 * 2 ^ (?k + 1))"
    proof -
      have "(2::int) ^ 53 * 2 ^ ?k = int (2 ^ 52 * 2 ^ (?k + 1))"
        by simp
      then have "(of_int (2 ^ 53 * 2 ^ ?k) :: rat) = of_int (int (2 ^ 52 * 2 ^ (?k + 1)))"
        by (simp only:)
      with R n show ?thesis
        by (simp only: of_int_of_nat_eq)
    qed
    ultimately show ?thesis
      unfolding is_double_def by blast
  qed
qed


lemma round_mag_no_overflow:
  assumes "0 \<le> x" and "x < 2 ^ max_exponent - 2 ^ (max_exponent - 54)"
  shows "round_mag x < 2 ^ max_exponent"
proof -
  let ?k = "quantum x"
  let ?X = "x * 2 ^ min_exponent"
  let ?n = "round_half_even (?X / 2 ^ ?k)"
  let ?M = "min_exponent + max_exponent"
  have M54: "54 \<le> max_exponent"
    by (simp add: max_exponent_def)
  have "?X < (2 ^ max_exponent - 2 ^ (max_exponent - 54)) * 2 ^ min_exponent"
    using assms(2) by simp
  also have "\<dots> = 2 ^ ?M - 2 ^ (?M - 54)"
  proof -
    have "?M - 54 = min_exponent + (max_exponent - 54)"
      using M54 by simp
    then show ?thesis
      by (simp only: power_add) (simp only: algebra_simps)
  qed
  finally have X: "?X < 2 ^ ?M - 2 ^ (?M - 54)" .
  moreover have "(0::rat) < 2 ^ (?M - 54)"
    by simp
  ultimately have XM: "?X < 2 ^ ?M"
    by linarith
  have k: "?k + 53 \<le> ?M"
  proof (rule ccontr)
    assume "\<not> ?k + 53 \<le> ?M"
    then have big: "?M \<le> ?k + 52" and "0 < ?k"
      by (simp_all add: min_exponent_def max_exponent_def)
    then have "2 ^ (?k + 52) \<le> ?X"
      using scaled_lower by blast
    moreover have "(2::rat) ^ ?M \<le> 2 ^ (?k + 52)"
      using big by (intro power_increasing) simp_all
    ultimately show False
      using XM by linarith
  qed
  have "?n * 2 ^ ?k < 2 ^ ?M"
  proof (cases "?k + 53 = ?M")
    case True
    with M54 have M: "?M = 53 + ?k" and M54': "?M - 54 + 1 = ?k"
      by arith+
    have "(2::rat) ^ ?k = 2 ^ (?M - 54) * 2"
      by (subst M54' [symmetric]) simp
    then have "2 ^ ?M - 2 ^ (?M - 54) = ((2::rat) ^ 53 - 1 / 2) * 2 ^ ?k"
      by (simp add: M power_add left_diff_distrib)
    with X have "?X < (2 ^ 53 - 1 / 2) * 2 ^ ?k"
      by simp
    then have "?X / 2 ^ ?k < of_int (2 ^ 53) - 1 / 2"
      by (simp add: field_simps)
    then have "?n < 2 ^ 53"
      by (rule rhe_less)
    then have "?n * 2 ^ ?k < 2 ^ 53 * 2 ^ ?k"
      by (rule mult_strict_right_mono) simp
    then show ?thesis
      by (simp only: M power_add)
  next
    case False
    with k have "?k + 54 \<le> ?M" by simp
    have "?n * 2 ^ ?k \<le> 2 ^ 53 * 2 ^ ?k"
      by (rule mult_right_mono [OF mantissa_le [OF assms(1)]]) simp
    also have "\<dots> = 2 ^ (?k + 53)"
      by (simp only: power_add mult.commute)
    also have "\<dots> < 2 ^ ?M"
      using \<open>?k + 54 \<le> ?M\<close> by (intro power_strict_increasing) simp_all
    finally show ?thesis .
  qed
  then have "(of_int (?n * 2 ^ ?k) :: rat) < of_int (2 ^ ?M)"
    by (simp only: of_int_less_iff)
  then have "round_mag x * 2 ^ min_exponent < 2 ^ max_exponent * 2 ^ min_exponent"
    by (simp add: round_mag_scaled power_add mult.commute)
  then show ?thesis
    by simp
qed

lemma round_mag_pos:
  assumes "1 \<le> x * 2 ^ min_exponent"
  shows "0 < round_mag x"
proof -
  let ?k = "quantum x"
  let ?X = "x * 2 ^ min_exponent"
  have "2 ^ ?k \<le> ?X"
  proof (cases "?k = 0")
    case True
    with assms show ?thesis by simp
  next
    case False
    then have "2 ^ (?k + 52) \<le> ?X"
      using scaled_lower by blast
    moreover have "(2::rat) ^ ?k \<le> 2 ^ (?k + 52)"
      by (intro power_increasing) simp_all
    ultimately show ?thesis by linarith
  qed
  then have "of_int 1 \<le> ?X / 2 ^ ?k"
    by (simp add: field_simps)
  then have "1 \<le> round_half_even (?X / 2 ^ ?k)"
    by (rule rhe_ge)
  then have "0 < round_half_even (?X / 2 ^ ?k) * 2 ^ ?k"
    by simp
  then have "(0::rat) < of_int (round_half_even (?X / 2 ^ ?k) * 2 ^ ?k)"
    by (simp only: of_int_0_less_iff)
  then show ?thesis
    by (simp add: round_mag_def)
qed


lemma quantum_eq:
  assumes "2 ^ (k + 52) \<le> x * 2 ^ min_exponent" and "x * 2 ^ min_exponent < 2 ^ (k + 53)"
  shows "quantum x = k"
proof -
  let ?X = "x * 2 ^ min_exponent"
  have "(of_int (2 ^ (k + 52)) :: rat) \<le> ?X"
    using assms(1) by simp
  then have lo: "(2::int) ^ (k + 52) \<le> \<lfloor>?X\<rfloor>"
    by (simp only: le_floor_iff)
  have "?X < of_int (2 ^ (k + 53))"
    using assms(2) by simp
  then have hi: "\<lfloor>?X\<rfloor> < 2 ^ (k + 53)"
    by (simp only: floor_less_iff)
  from lo have "(2::nat) ^ (k + 52) \<le> nat \<lfloor>?X\<rfloor>"
    by (simp add: le_nat_iff)
  then have "Suc (k + 52) \<le> floorlog 2 (nat \<lfloor>?X\<rfloor>)"
    by (rule floorlog_ge_SucI) simp
  moreover from hi lo have "nat \<lfloor>?X\<rfloor> < 2 ^ (k + 53)"
    by (simp add: nat_less_iff)
  then have "floorlog 2 (nat \<lfloor>?X\<rfloor>) \<le> k + 53"
    by (rule floorlog_leI) simp_all
  ultimately show ?thesis
    by (simp add: quantum_def)
qed

lemma round_mag_small:
  assumes "n \<le> min_exponent" and "2 ^ 52 / 2 ^ n \<le> x" and "x < 2 ^ 53 / 2 ^ n"
  shows "round_mag x = of_int (round_half_even (x * 2 ^ n)) / 2 ^ n"
proof -
  define k where "k = min_exponent - n"
  have mn: "min_exponent = k + n"
    using assms(1) by (simp add: k_def)
  have "2 ^ 52 \<le> x * 2 ^ n" and "x * 2 ^ n < 2 ^ 53"
    using assms(2,3) by (simp_all add: field_simps)
  then have "2 ^ 52 * 2 ^ k \<le> x * 2 ^ n * 2 ^ k" and "x * 2 ^ n * 2 ^ k < 2 ^ 53 * 2 ^ k"
    by simp_all
  then have "2 ^ (k + 52) \<le> x * 2 ^ min_exponent" and "x * 2 ^ min_exponent < 2 ^ (k + 53)"
    by (simp_all only: mn power_add mult.assoc mult.commute [of "2 ^ k"])
  then have q: "quantum x = k"
    by (rule quantum_eq)
  have "x * 2 ^ min_exponent / 2 ^ k = x * 2 ^ n"
    by (simp add: mn power_add)
  then show ?thesis
    by (simp add: round_mag_def q) (simp add: mn power_add)
qed

lemma rhe_0 [simp]: "round_half_even 0 = 0"
  by (simp add: round_half_even_def)

lemma round_mag_0 [simp]: "round_mag 0 = 0"
  by (simp add: round_mag_def)

lemma round_mag_overflow:
  assumes "2 ^ max_exponent \<le> x"
  shows "2 ^ max_exponent \<le> round_mag x"
proof -
  let ?k = "quantum x"
  let ?X = "x * 2 ^ min_exponent"
  let ?n = "round_half_even (?X / 2 ^ ?k)"
  let ?M = "min_exponent + max_exponent"
  have x0: "0 \<le> x"
    using assms by (rule order_trans [rotated]) simp
  have "2 ^ max_exponent * 2 ^ min_exponent \<le> ?X"
    using assms by simp
  then have XM: "2 ^ ?M \<le> ?X"
    by (simp only: power_add mult.commute)
  also have "?X < 2 ^ (?k + 53)"
    by (rule scaled_upper [OF x0])
  finally have "?M < ?k + 53"
    by (simp only: power_strict_increasing_iff)
  then have k: "?M \<le> ?k + 52" and k0: "0 < ?k"
    by (simp_all add: min_exponent_def max_exponent_def)
  have "(2::int) ^ ?M \<le> 2 ^ (?k + 52)"
    using k by (intro power_increasing) simp_all
  also have "\<dots> = 2 ^ 52 * 2 ^ ?k"
    by (simp only: power_add mult.commute)
  also have "\<dots> \<le> ?n * 2 ^ ?k"
    by (rule mult_right_mono [OF mantissa_ge [OF k0]]) simp
  finally have "(of_int (2 ^ ?M) :: rat) \<le> of_int (?n * 2 ^ ?k)"
    by (simp only: of_int_le_iff)
  then have "2 ^ max_exponent * 2 ^ min_exponent \<le> round_mag x * 2 ^ min_exponent"
    by (simp add: round_mag_scaled power_add mult.commute)
  then show ?thesis
    by simp
qed

lemma make_double_value:
  assumes "0 \<le> m"
  shows "number_value (make_double s m)
         = (if 2 ^ max_exponent \<le> m then None else Some (if s then - m else m))"
  by (simp add: make_double_def infinity_def)

lemma make_double_not_NaN [simp]: "make_double s m \<noteq> NaN"
  by (simp add: make_double_def infinity_def)

lemma signed_round_nearest:
  assumes rm: "rm = round_mag \<bar>p\<bar>" and "rm < 2 ^ max_exponent"
  shows "nearest_double p (if p < 0 then - rm else rm)"
proof -
  have "is_double rm"
    unfolding rm using assms(2) [unfolded rm] by (intro round_mag_is_double) simp_all
  then have dbl: "is_double (if p < 0 then - rm else rm)"
    by simp
  have near: "\<bar>\<bar>p\<bar> - rm\<bar> \<le> \<bar>\<bar>p\<bar> - d\<bar>" if "is_double d" for d
    unfolding rm using that by (intro round_mag_nearest) simp_all
  have "\<bar>p - (if p < 0 then - rm else rm)\<bar> \<le> \<bar>p - d\<bar>" if "is_double d" for d
  proof (cases "p < 0")
    case True
    from that have "is_double (- d)" by simp
    from near [OF this] True show ?thesis by simp
  next
    case False
    from near [OF that] False show ?thesis by simp
  qed
  with dbl show ?thesis
    unfolding nearest_double_def by blast
qed

lemma js_mul_Num:
  "js_mul (Num a) (Num b) = make_double (a * b < 0 \<or> (a * b = 0 \<and> (a < 0) \<noteq> (b < 0))) (round_mag \<bar>a * b\<bar>)"
proof -
  have "((a < 0) \<noteq> (b < 0)) = (a * b < 0 \<or> (a * b = 0 \<and> (a < 0) \<noteq> (b < 0)))"
    by (auto simp: mult_less_0_iff not_less le_less)
  then show ?thesis
    by (simp add: js_mul_def abs_mult)
qed

lemma double_below_threshold:
  assumes "is_double x"
  shows "\<bar>x\<bar> < 2 ^ max_exponent - 2 ^ (max_exponent - 54)"
proof -
  let ?M = "min_exponent + max_exponent"
  from assms obtain m j where m: "m < 2 ^ 53" and j: "j + 53 \<le> ?M"
    and x: "\<bar>x\<bar> * 2 ^ min_exponent = of_nat (m * 2 ^ j)"
    by (auto simp: is_double_def)
  have M54: "54 \<le> max_exponent"
    by (simp add: max_exponent_def)
  from m have "m + 1 \<le> 2 ^ 53" by simp
  then have "(m + 1) * 2 ^ j \<le> 2 ^ 53 * 2 ^ j"
    by (rule mult_le_mono1)
  also have "\<dots> = 2 ^ (j + 53)"
    by (simp only: power_add mult.commute)
  also have "\<dots> \<le> 2 ^ ?M"
    using j by (intro power_increasing) simp_all
  finally have "m * 2 ^ j + 2 ^ j \<le> 2 ^ ?M"
    by (simp add: algebra_simps)
  then have "(of_nat (m * 2 ^ j + 2 ^ j) :: rat) \<le> of_nat (2 ^ ?M)"
    by (simp only: of_nat_le_iff)
  then have le: "(of_nat (m * 2 ^ j) :: rat) + 2 ^ j \<le> 2 ^ ?M"
    by simp
  have small: "(2::rat) ^ (?M - 54) < 2 ^ ?M"
    using M54 by (intro power_strict_increasing) simp_all
  have "(of_nat (m * 2 ^ j) :: rat) < 2 ^ ?M - 2 ^ (?M - 54)"
  proof (cases "m = 0")
    case True
    with small show ?thesis by simp
  next
    case False
    show ?thesis
    proof (cases "j + 53 = ?M")
      case True
      then have "?M - 54 < j"
        using M54 by arith
      then have "(2::rat) ^ (?M - 54) < 2 ^ j"
        by (intro power_strict_increasing) simp_all
      with le show ?thesis by linarith
    next
      case False
      with j have "j + 54 \<le> ?M" by simp
      have "m * 2 ^ j < 2 ^ 53 * 2 ^ j"
        using m by simp
      also have "\<dots> = 2 ^ (j + 53)"
        by (simp only: power_add mult.commute)
      finally have "(of_nat (m * 2 ^ j) :: rat) < of_nat (2 ^ (j + 53))"
        by (simp only: of_nat_less_iff)
      then have a: "(of_nat (m * 2 ^ j) :: rat) < 2 ^ (j + 53)"
        by simp
      have "(2::rat) ^ (j + 53) \<le> 2 ^ (?M - 1)"
        using \<open>j + 54 \<le> ?M\<close> by (intro power_increasing) simp_all
      moreover have "(2::rat) ^ (?M - 1) + 2 ^ (?M - 1) = 2 ^ ?M"
      proof -
        have "?M = Suc (?M - 1)"
          using M54 by simp
        then have "(2::rat) ^ ?M = 2 * 2 ^ (?M - 1)"
          by (metis power_Suc)
        then show ?thesis by simp
      qed
      moreover have "(2::rat) ^ (?M - 54) \<le> 2 ^ (?M - 1)"
        by (intro power_increasing) simp_all
      ultimately show ?thesis
        using a by linarith
    qed
  qed
  moreover have "(2 ^ max_exponent - 2 ^ (max_exponent - 54)) * 2 ^ min_exponent
                 = (2::rat) ^ ?M - 2 ^ (?M - 54)"
  proof -
    have "?M - 54 = min_exponent + (max_exponent - 54)"
      using M54 by simp
    then show ?thesis
      by (simp only: power_add) (simp only: algebra_simps)
  qed
  ultimately have "\<bar>x\<bar> * 2 ^ min_exponent
                   < (2 ^ max_exponent - 2 ^ (max_exponent - 54)) * 2 ^ min_exponent"
    using x by (simp only:)
  then show ?thesis
    by simp
qed

lemma js_mul_correct:
  "js_mul (Num a) (Num b) \<noteq> NaN
   \<and> (\<forall>r. number_value (js_mul (Num a) (Num b)) = Some r \<longrightarrow> nearest_double (a * b) r)
   \<and> (is_double (a * b) \<longrightarrow> number_value (js_mul (Num a) (Num b)) = Some (a * b))
   \<and> (number_value (js_mul (Num a) (Num b)) = None
        \<longrightarrow> 2 ^ max_exponent - 2 ^ (max_exponent - 54) \<le> \<bar>a * b\<bar>)
   \<and> (2 ^ max_exponent \<le> \<bar>a * b\<bar>
        \<longrightarrow> js_mul (Num a) (Num b) = (if a * b < 0 then NegInfinity else PosInfinity))"
proof -
  define p where "p = a * b"
  define rm where "rm = round_mag \<bar>p\<bar>"
  define s where "s = (p < 0 \<or> (p = 0 \<and> (a < 0) \<noteq> (b < 0)))"
  have rm0: "0 \<le> rm"
    unfolding rm_def by (rule round_mag_nonneg) simp
  have "js_mul (Num a) (Num b) = make_double s rm"
    unfolding s_def rm_def p_def by (rule js_mul_Num)
  then have val: "number_value (js_mul (Num a) (Num b))
             = (if 2 ^ max_exponent \<le> rm then None else Some (if s then - rm else rm))"
    by (simp only: make_double_value [OF rm0])
  have "rm = 0" if "p = 0"
    using that by (simp add: rm_def)
  then have signed: "(if s then - rm else rm) = (if p < 0 then - rm else rm)"
    by (auto simp: s_def)
  have 1: "js_mul (Num a) (Num b) \<noteq> NaN"
    by (simp add: js_mul_Num)
  have 2: "nearest_double p r" if "number_value (js_mul (Num a) (Num b)) = Some r" for r
  proof -
    from that val have lt: "rm < 2 ^ max_exponent" and r: "r = (if p < 0 then - rm else rm)"
      by (simp_all add: signed split: if_splits)
    from signed_round_nearest [OF rm_def lt] r show ?thesis
      by (simp only:)
  qed
  have 3: "number_value (js_mul (Num a) (Num b)) = Some p" if "is_double p"
  proof -
    from that have d: "is_double \<bar>p\<bar>"
      by (simp add: is_double_def)
    then have e: "rm = \<bar>p\<bar>"
      unfolding rm_def by (intro round_mag_exact) simp_all
    have "\<bar>p\<bar> < 2 ^ max_exponent - 2 ^ (max_exponent - 54)"
      by (rule double_below_threshold [OF that])
    then have "rm < 2 ^ max_exponent"
      unfolding rm_def by (intro round_mag_no_overflow) simp_all
    with val e show ?thesis
      by (simp add: signed abs_if)
  qed
  have 4: "2 ^ max_exponent - 2 ^ (max_exponent - 54) \<le> \<bar>p\<bar>"
    if "number_value (js_mul (Num a) (Num b)) = None"
  proof (rule ccontr)
    assume "\<not> ?thesis"
    then have "rm < 2 ^ max_exponent"
      unfolding rm_def by (intro round_mag_no_overflow) simp_all
    with val that show False by simp
  qed
  have 5: "js_mul (Num a) (Num b) = (if p < 0 then NegInfinity else PosInfinity)"
    if "2 ^ max_exponent \<le> \<bar>p\<bar>"
  proof -
    from that have "2 ^ max_exponent \<le> rm"
      unfolding rm_def by (rule round_mag_overflow)
    moreover have "(0::rat) < 2 ^ max_exponent"
      by simp
    then have "0 < \<bar>p\<bar>"
      using that by (rule less_le_trans)
    then have "p \<noteq> 0"
      by simp
    ultimately show ?thesis
      using \<open>js_mul (Num a) (Num b) = make_double s rm\<close>
      by (simp add: make_double_def infinity_def s_def)
  qed
  from 1 2 3 4 5 show ?thesis
    unfolding p_def by blast
qed

text \<open>
  The product of any number and a positive finite one: of a finite number, the rounded
  exact product; of an infinity or NaN, that same value.
\<close>

lemma is_double_0: "is_double 0"
  unfolding is_double_def
  by (intro exI [of _ 0]) (simp add: min_exponent_def)

lemma js_mul_NegZero:
  assumes "0 < b"
  shows "js_mul NegZero (Num b) = NegZero"
proof -
  have "\<not> (2::rat) ^ max_exponent \<le> 0"
    by (simp add: not_le)
  then show ?thesis
    using assms by (simp add: js_mul_def make_double_def)
qed

lemma js_mul_not_finite:
  assumes "0 < b" and "number_value n = None"
  shows "js_mul n (Num b) = n"
  using assms by (cases n) (simp_all add: js_mul_def infinity_def)

lemma js_mul_finite:
  assumes "0 < b" and "number_value n = Some x"
  shows "js_mul n (Num b) \<noteq> NaN
   \<and> (\<forall>r. number_value (js_mul n (Num b)) = Some r \<longrightarrow> nearest_double (x * b) r)
   \<and> (is_double (x * b) \<longrightarrow> number_value (js_mul n (Num b)) = Some (x * b))
   \<and> (number_value (js_mul n (Num b)) = None
        \<longrightarrow> 2 ^ max_exponent - 2 ^ (max_exponent - 54) \<le> \<bar>x * b\<bar>)
   \<and> (2 ^ max_exponent \<le> \<bar>x * b\<bar>
        \<longrightarrow> js_mul n (Num b) = (if x * b < 0 then NegInfinity else PosInfinity))"
proof (cases n)
  case (Num a)
  with assms(2) have "a = x"
    by simp
  with Num show ?thesis
    using js_mul_correct [of x b] by simp
next
  case NegZero
  with assms(2) have x: "x = 0"
    by simp
  have z: "js_mul n (Num b) = NegZero"
    unfolding NegZero using assms(1) by (rule js_mul_NegZero)
  have "nearest_double 0 0"
    by (simp add: nearest_double_def is_double_0)
  moreover have "\<not> (2::rat) ^ max_exponent \<le> 0"
    by (simp add: not_le)
  ultimately show ?thesis
    by (simp add: z x)
qed (use assms(2) in simp_all)

text \<open>Evaluation of a rounding from a certificate: the binade and the nearest integer.\<close>

lemma rhe_eqI:
  assumes "\<bar>y - of_int c\<bar> < 1 / 2"
  shows "round_half_even y = c"
proof -
  from rhe_half [of y] assms
  have "\<bar>(of_int c :: rat) - of_int (round_half_even y)\<bar> < 1"
    by linarith
  then have "\<bar>(of_int (c - round_half_even y) :: rat)\<bar> < of_int 1"
    by simp
  then have "\<bar>c - round_half_even y\<bar> < 1"
    by (simp only: of_int_abs [symmetric] of_int_less_iff)
  then show ?thesis
    by simp
qed

lemma round_mag_cert:
  assumes "n \<le> min_exponent"
    and "2 ^ 52 \<le> x * 2 ^ n" and "x * 2 ^ n < 2 ^ 53"
    and "\<bar>x * 2 ^ n - of_int c\<bar> < 1 / 2"
  shows "round_mag x = of_int c / 2 ^ n"
proof -
  have "2 ^ 52 / 2 ^ n \<le> x" and "x < 2 ^ 53 / 2 ^ n"
    using assms(2,3) by (simp_all add: field_simps)
  with assms(1) have "round_mag x = of_int (round_half_even (x * 2 ^ n)) / 2 ^ n"
    by (rule round_mag_small)
  with rhe_eqI [OF assms(4)] show ?thesis
    by simp
qed

lemma cert_bounds:
  fixes X :: rat
  assumes "2 ^ 52 \<le> X" and "X < 2 ^ 53" and "\<bar>X - of_int c\<bar> < 1 / 2"
  shows "0 < c" and "c \<le> 2 ^ 53"
proof -
  from assms have "(2::rat) ^ 52 - 1 < of_int c" and "(of_int c :: rat) < 2 ^ 53 + 1"
    by linarith+
  then have "(of_int (2 ^ 52 - 1) :: rat) < of_int c"
    and "(of_int c :: rat) < of_int (2 ^ 53 + 1)"
    by simp_all
  then have "2 ^ 52 - 1 < c" and "c < 2 ^ 53 + 1"
    by (simp_all only: of_int_less_iff)
  then show "0 < c" and "c \<le> 2 ^ 53"
    by simp_all
qed

lemma make_double_Num:
  assumes "0 < m" and "m < 2 ^ max_exponent"
  shows "make_double s m = Num (if s then - m else m)"
  using assms by (simp add: make_double_def)

lemma cert_value_bounds:
  assumes "0 < c" and "c \<le> 2 ^ 53"
  shows "(0::rat) < of_int c / 2 ^ n" and "(of_int c :: rat) / 2 ^ n < 2 ^ max_exponent"
proof -
  show "(0::rat) < of_int c / 2 ^ n"
    using assms(1) by simp
  have "(of_int c :: rat) \<le> of_int (2 ^ 53)"
    using assms(2) by (simp only: of_int_le_iff)
  then have "(of_int c :: rat) \<le> 2 ^ 53"
    by simp
  also have "(2::rat) ^ 53 < 2 ^ max_exponent"
    by (rule power_strict_increasing) (simp_all add: max_exponent_def)
  finally have "(of_int c :: rat) < 2 ^ max_exponent" .
  moreover have "(of_int c :: rat) / 2 ^ n \<le> of_int c"
    using assms(1) by (simp add: field_simps mult_le_cancel_left1)
  ultimately show "(of_int c :: rat) / 2 ^ n < 2 ^ max_exponent"
    by linarith
qed

lemma js_literal_cert:
  assumes "0 < r" and "n \<le> min_exponent"
    and "2 ^ 52 \<le> r * 2 ^ n" and "r * 2 ^ n < 2 ^ 53"
    and "\<bar>r * 2 ^ n - of_int c\<bar> < 1 / 2"
  shows "js_literal r = Num (of_int c / 2 ^ n)"
proof -
  have "round_mag r = of_int c / 2 ^ n"
    by (rule round_mag_cert [OF assms(2-5)])
  moreover note cert_value_bounds [OF cert_bounds [OF assms(3-5)], of n]
  ultimately show ?thesis
    using assms(1) by (simp add: js_literal_def make_double_Num)
qed

lemma js_mul_cert:
  assumes "n \<le> min_exponent"
    and "2 ^ 52 \<le> \<bar>a * b\<bar> * 2 ^ n" and "\<bar>a * b\<bar> * 2 ^ n < 2 ^ 53"
    and "\<bar>\<bar>a * b\<bar> * 2 ^ n - of_int c\<bar> < 1 / 2"
  shows "js_mul (Num a) (Num b) = Num (if a * b < 0 then - (of_int c / 2 ^ n) else of_int c / 2 ^ n)"
proof -
  have rm: "round_mag \<bar>a * b\<bar> = of_int c / 2 ^ n"
    by (rule round_mag_cert [OF assms])
  have "a * b \<noteq> 0"
    using assms(2) by auto
  then have s: "(a * b < 0 \<or> (a * b = 0 \<and> (a < 0) \<noteq> (b < 0))) = (a * b < 0)"
    by simp
  note cert_value_bounds [OF cert_bounds [OF assms(2-4)], of n]
  then show ?thesis
    by (simp only: js_mul_Num s rm make_double_Num)
qed

text \<open>The products that the examples below need.\<close>

lemma literal_car_km: "js_literal (1 / 5) = Num (3602879701896397 / 18014398509481984)"
  using js_literal_cert [of "1 / 5" 55 7205759403792794]
  by (simp add: min_exponent_def)

lemma literal_beef_kg: "js_literal 60 = Num 60"
  using js_literal_cert [of 60 47 8444249301319680]
  by (simp add: min_exponent_def)

lemma mul_10_car_km: "js_mul (Num 10) (Num (3602879701896397 / 18014398509481984)) = Num 2"
  using js_mul_cert [of 51 10 "3602879701896397 / 18014398509481984" 4503599627370496]
  by (simp add: min_exponent_def)

lemma mul_minus_5_car_km:
  "js_mul (Num (- 5)) (Num (3602879701896397 / 18014398509481984)) = Num (- 1)"
  using js_mul_cert [of 52 "- 5" "3602879701896397 / 18014398509481984" 4503599627370496]
  by (simp add: min_exponent_def)

lemma mul_2_beef_kg: "js_mul (Num 2) (Num 60) = Num 120"
  using js_mul_cert [of 46 2 60 8444249301319680]
  by (simp add: min_exponent_def)

lemma mul_10_1: "js_mul (Num 10) (Num 1) = Num 10"
  using js_mul_cert [of 49 10 1 5629499534213120]
  by (simp add: min_exponent_def)

lemma mul_2_1: "js_mul (Num 2) (Num 1) = Num 2"
  using js_mul_cert [of 51 2 1 4503599627370496]
  by (simp add: min_exponent_def)

text \<open>
  The product of 3 and the factor of car_km lies exactly between two doubles and goes to
  the even one: \<^verbatim>\<open>3 * 0.2\<close> is \<^verbatim>\<open>0.6000000000000001\<close>, not the double nearest to
  \<^verbatim>\<open>0.6\<close>, which is the odd neighbour below.
\<close>

lemma rhe_tie: "round_half_even (of_int k + 1 / 2) = (if even k then k else k + 1)"
proof -
  have "\<lfloor>of_int k + (1 / 2 :: rat)\<rfloor> = k"
    by (rule floor_unique) simp_all
  then show ?thesis
    by (simp add: round_half_even_def)
qed

lemma mul_3_car_km:
  "js_mul (Num 3) (Num (3602879701896397 / 18014398509481984))
   = Num (5404319552844596 / 9007199254740992)"
proof -
  let ?x = "3 * (3602879701896397 / 18014398509481984) :: rat"
  have "round_mag ?x = of_int (round_half_even (?x * 2 ^ 53)) / 2 ^ 53"
    by (rule round_mag_small) (simp_all add: min_exponent_def)
  moreover have "?x * 2 ^ 53 = of_int 5404319552844595 + 1 / 2"
    by simp
  moreover have "round_half_even (of_int 5404319552844595 + 1 / 2) = 5404319552844596"
    by (simp only: rhe_tie) simp
  ultimately have "round_mag ?x = of_int 5404319552844596 / 2 ^ 53"
    by (simp only:)
  then have "round_mag \<bar>?x\<bar> = 5404319552844596 / 9007199254740992"
    by simp
  then show ?thesis
    by (simp add: js_mul_Num make_double_def max_exponent_def del: abs_mult)
qed

lemma literal_nearest_to_six_tenths:
  "js_literal (6 / 10) = Num (5404319552844595 / 9007199254740992)"
  using js_literal_cert [of "6 / 10" 53 5404319552844595]
  by (simp add: min_exponent_def)

subsection \<open>Basic facts about the model\<close>

lemma table_factor_bounds:
  assumes "table_factor c un = Some f"
  shows "3 / 100 \<le> f" and "f \<le> 60"
  using assms
  by (auto simp: table_factor_def emissionFactors_def split: if_splits)

text \<open>
  Every factor of the table is a literal in the normal range: its value is a positive
  double, the one nearest to the decimal the source writes.
\<close>

lemma table_literal:
  assumes "table_factor c un = Some f"
  shows "\<exists>fd. js_literal f = Num fd \<and> 0 < fd \<and> nearest_double f fd"
proof -
  note b = table_factor_bounds [OF assms]
  have "(2::rat) ^ 6 \<le> 2 ^ min_exponent"
    by (rule power_increasing) (simp_all add: min_exponent_def)
  then have "64 \<le> (2::rat) ^ min_exponent"
    by simp
  with b(1) have "3 / 100 * 64 \<le> f * 2 ^ min_exponent"
    by (intro mult_mono) simp_all
  then have "1 \<le> f * 2 ^ min_exponent"
    by simp
  then have pos: "0 < round_mag f"
    by (rule round_mag_pos)
  have "(2::rat) ^ 6 \<le> 2 ^ (max_exponent - 1)"
    by (rule power_increasing) (simp_all add: max_exponent_def)
  then have "64 \<le> (2::rat) ^ (max_exponent - 1)"
    by simp
  moreover have "(2::rat) ^ (max_exponent - 54) \<le> 2 ^ (max_exponent - 1)"
    by (rule power_increasing) simp_all
  moreover have "(2::rat) ^ max_exponent = 2 * 2 ^ (max_exponent - 1)"
  proof -
    have "max_exponent = Suc (max_exponent - 1)"
      by (simp add: max_exponent_def)
    then show ?thesis
      by (metis power_Suc)
  qed
  ultimately have "f < 2 ^ max_exponent - 2 ^ (max_exponent - 54)"
    using b(2) by linarith
  with b(1) have lt: "round_mag f < 2 ^ max_exponent"
    by (intro round_mag_no_overflow) simp_all
  have f0: "\<not> f < 0" and abs: "\<bar>f\<bar> = f"
    using b(1) by simp_all
  have "nearest_double f (if f < 0 then - round_mag f else round_mag f)"
    by (rule signed_round_nearest) (simp_all add: abs lt)
  then have "nearest_double f (round_mag f)"
    using f0 by simp
  moreover have "js_literal f = Num (round_mag f)"
    using pos lt f0 by (simp add: js_literal_def abs make_double_Num)
  ultimately show ?thesis
    using pos by blast
qed

text \<open>The factor that the lookup finds for a pair of the table.\<close>

lemma factor_of_table:
  assumes "table_factor c un = Some f" and "js_literal f = Num fd" and "fd \<noteq> 0"
  shows "factor_of g (JString c) (JString un) = Inr (Num fd)"
  using assms
  by (auto simp: table_factor_def factor_of_def ToPropertyKey_def get_unit_def js_or_def
      split: option.splits)

lemma socket_emit_fields [simp]:
  "sockets (socket_emit s m st) = sockets st"
  "rooms (socket_emit s m st) = rooms st"
  "sids (socket_emit s m st) = sids st"
  "outbox (socket_emit s m st) c = (if c = s then outbox st s @ [m] else outbox st c)"
  by (simp_all add: socket_emit_def)

lemma io_emit_fields [simp]:
  "sockets (io_emit m st) = sockets st"
  "rooms (io_emit m st) = rooms st"
  "sids (io_emit m st) = sids st"
  "outbox (io_emit m st) c = (if c \<in> dom (sockets st) then outbox st c @ [m] else outbox st c)"
  by (simp_all add: io_emit_def)

lemma io_to_emit_fields [simp]:
  "sockets (io_to_emit r m st) = sockets st"
  "rooms (io_to_emit r m st) = rooms st"
  "sids (io_to_emit r m st) = sids st"
  "outbox (io_to_emit r m st) c = (if c \<in> membersOf st r then outbox st c @ [m] else outbox st c)"
  by (simp_all add: io_to_emit_def)

lemma membersOf_emit [simp]:
  "membersOf (socket_emit s m st) = membersOf st"
  "membersOf (io_emit m st) = membersOf st"
  "membersOf (io_to_emit r m st) = membersOf st"
  by (simp_all add: membersOf_def fun_eq_iff)

lemma roomsOf_emit [simp]:
  "roomsOf (socket_emit s m st) = roomsOf st"
  "roomsOf (io_emit m st) = roomsOf st"
  "roomsOf (io_to_emit r m st) = roomsOf st"
  by (simp_all add: roomsOf_def fun_eq_iff)

lemma join_fields [simp]:
  "sockets (join s r st) = sockets st"
  "outbox (join s r st) = outbox st"
  by (simp_all add: join_def)

lemma membersOf_join:
  "membersOf (join s r st) r' = (if r' = r then insert s (membersOf st r) else membersOf st r')"
  by (simp add: join_def membersOf_def)

lemma roomsOf_join:
  "roomsOf (join s r st) s' = (if s' = s then insert r (roomsOf st s) else roomsOf st s')"
  by (simp add: join_def roomsOf_def)

lemma leave_fields [simp]:
  "sockets (leave s r st) = sockets st"
  "outbox (leave s r st) = outbox st"
  by (simp_all add: leave_def)

lemma membersOf_leave:
  "membersOf (leave s r st) r' = (if r' = r then membersOf st r - {s} else membersOf st r')"
  by (auto simp: leave_def membersOf_def split: option.splits)

lemma roomsOf_leave:
  "roomsOf (leave s r st) s' = (if s' = s then roomsOf st s - {r} else roomsOf st s')"
  by (auto simp: leave_def roomsOf_def split: option.splits)

lemma connection_fields [simp]:
  "sockets (connection s u st) = (sockets st)(s \<mapsto> u)"
  "outbox (connection s u st) = outbox st"
  by (simp_all add: connection_def)

lemma membersOf_connection:
  "membersOf (connection s u st) r =
     (if r = user_room (user_id u) then insert s (membersOf st r) else membersOf st r)"
  by (simp add: connection_def membersOf_join) (simp add: membersOf_def)

lemma roomsOf_connection:
  "roomsOf (connection s u st) s' =
     (if s' = s then insert (user_room (user_id u)) (roomsOf st s) else roomsOf st s')"
  by (simp add: connection_def roomsOf_join) (simp add: roomsOf_def)

lemma disconnect_fields [simp]:
  "sockets (disconnect s st) = (sockets st)(s := None)"
  "outbox (disconnect s st) = outbox st"
  by (simp_all add: disconnect_def)

lemma membersOf_disconnect:
  "membersOf (disconnect s st) r =
     (if r \<in> roomsOf st s then membersOf st r - {s} else membersOf st r)"
  by (simp add: disconnect_def membersOf_def)

lemma init_fields [simp]:
  "sockets init = Map.empty"
  "outbox init c = []"
  "membersOf init r = {}"
  "roomsOf init s = {}"
  by (simp_all add: init_def membersOf_def roomsOf_def)

lemma user_room_inj [simp]: "(user_room a = user_room b) = (a = b)"
  by (simp add: user_room_def)

lemma user_room_not_webinar_room [simp]:
  "user_room a \<noteq> webinar_room w"
  "webinar_room w \<noteq> user_room a"
  by (simp_all add: user_room_def webinar_room_def)

lemma example_server_facts:
  "sockets example_server 11 = Some alice"
  "sockets example_server 12 = Some bob"
  "dom (sockets example_server) = {11, 12}"
  "membersOf example_server (user_room ''7'') = {11}"
  "membersOf example_server (user_room ''8'') = {12}"
  "outbox example_server c = []"
  by (auto simp: example_server_def membersOf_connection alice_def bob_def)

lemma two_devices_facts:
  "sockets two_devices 11 = Some alice"
  "sockets two_devices 12 = Some alice"
  "dom (sockets two_devices) = {11, 12}"
  "membersOf two_devices (user_room ''7'') = {11, 12}"
  "outbox two_devices c = []"
  by (auto simp: two_devices_def membersOf_connection alice_def)

text \<open>What \<^verbatim>\<open>log_activity\<close> does once the footprint has been calculated.\<close>

lemma log_activity_success:
  assumes "calculateCarbonFootprint g (now e) (category d) (quantity d) (unit d) ''US''
           = Inr fp"
  shows "log_activity g e s u (Some d) st
         = socket_emit s
             (Recommendation_updated
                (generatePersonalizedRecommendations e (user_id u) (category d)))
             (io_emit
                (Activity_logged
                   \<lparr> ae_user_id = user_id u, ae_category = category d,
                     ae_impact = co2_equivalent_kg fp,
                     ae_timestamp = now e, ae_description = description d \<rparr>) st)"
  using assms by (simp add: log_activity_def)

text \<open>What it does when the payload is missing or the calculation throws.\<close>

lemma log_activity_failure:
  assumes "data = None
         \<or> (\<exists>d err. data = Some d \<and>
               calculateCarbonFootprint g (now e) (category d) (quantity d) (unit d) ''US''
               = Inl err)"
  shows "log_activity g e s u data st
         = socket_emit s (Error_event ''Failed to log activity'') st"
  using assms by (auto simp: log_activity_def)

text \<open>
  The calculation does not throw on a report whose fields are primitive values of the
  expected kinds, or missing, unless the category names a property of
  \<^verbatim>\<open>Object.prototype\<close>.
\<close>

lemma calculateCarbonFootprint_total:
  assumes "c = JUndefined \<or> (\<exists>k. c = JString k \<and> k \<notin> set object_prototype)"
    and "q = JUndefined \<or> (\<exists>n. q = JNumber n)"
    and "un = JUndefined \<or> (\<exists>k. un = JString k)"
  shows "\<exists>fp. calculateCarbonFootprint g t c q un loc = Inr fp"
proof -
  from assms(1,3) have "\<exists>f. factor_of g c un = Inr f"
    by (auto simp: factor_of_def ToPropertyKey_def object_prototype_def split: option.splits)
  moreover from assms(2) have "\<exists>n. ToNumber g q = Inr n"
    by auto
  ultimately show ?thesis
    by (auto simp: calculateCarbonFootprint_def)
qed

text \<open>
  It does throw on a quantity that has no primitive value, such as the object
  \<^verbatim>\<open>{toString: 1, valueOf: 1}\<close>.
\<close>

lemma calculateCarbonFootprint_throws:
  "calculateCarbonFootprint g t (JString ''transportation'')
     (JObject [(''toString'', JNumber (Num 1)), (''valueOf'', JNumber (Num 1))])
     (JString ''car_km'') loc = Inl TypeError"
  by (simp add: calculateCarbonFootprint_def factor_of_def ToPropertyKey_def
      emissionFactors_def split: sum.splits)

text \<open>
  The default the source intends: a pair that is not in the table, neither of whose
  keys is a property name of \<^verbatim>\<open>Object.prototype\<close>, has factor 1.
\<close>

lemma default_factor:
  assumes "table_factor c un = None"
    and "c \<notin> set object_prototype"
    and "un \<notin> set object_prototype"
    and "ToNumber g q = Inr n"
  shows "map_sum id co2_equivalent_kg (calculateCarbonFootprint g t (JString c) q (JString un) loc)
         = Inr (js_mul n (Num 1))"
  using assms
  by (simp add: calculateCarbonFootprint_def factor_of_def ToPropertyKey_def table_factor_def
      get_unit_def js_or_def split: option.splits)

text \<open>The footprints of the example reports.\<close>

lemma footprint_car_trip_10:
  "calculateCarbonFootprint example_engine t (JString ''transportation'') (JNumber (Num 10))
     (JString ''car_km'') ''US''
   = Inr \<lparr> fp_activity_type = JString ''transportation'', fp_quantity = JNumber (Num 10),
           fp_unit = JString ''car_km'', co2_equivalent_kg = Num 2,
           calculation_method = ''IPCC Guidelines'', location_factor = 1,
           calculated_at = t \<rparr>"
  by (simp add: calculateCarbonFootprint_def factor_of_def ToPropertyKey_def get_unit_def
      js_or_def emissionFactors_def literal_car_km mul_10_car_km)

lemma footprint_car_trip_minus_5:
  "calculateCarbonFootprint example_engine t (JString ''transportation'') (JNumber (Num (- 5)))
     (JString ''car_km'') ''US''
   = Inr \<lparr> fp_activity_type = JString ''transportation'', fp_quantity = JNumber (Num (- 5)),
           fp_unit = JString ''car_km'', co2_equivalent_kg = Num (- 1),
           calculation_method = ''IPCC Guidelines'', location_factor = 1,
           calculated_at = t \<rparr>"
  by (simp add: calculateCarbonFootprint_def factor_of_def ToPropertyKey_def get_unit_def
      js_or_def emissionFactors_def literal_car_km mul_minus_5_car_km)

lemma footprint_of_car_trip_10:
  "calculateCarbonFootprint example_engine t (category (car_trip 10)) (quantity (car_trip 10))
     (unit (car_trip 10)) ''US''
   = Inr \<lparr> fp_activity_type = JString ''transportation'', fp_quantity = JNumber (Num 10),
           fp_unit = JString ''car_km'', co2_equivalent_kg = Num 2,
           calculation_method = ''IPCC Guidelines'', location_factor = 1,
           calculated_at = t \<rparr>"
  by (simp add: car_trip_def footprint_car_trip_10)

lemma footprint_of_car_trip_minus_5:
  "calculateCarbonFootprint example_engine t (category (car_trip (- 5)))
     (quantity (car_trip (- 5))) (unit (car_trip (- 5))) ''US''
   = Inr \<lparr> fp_activity_type = JString ''transportation'', fp_quantity = JNumber (Num (- 5)),
           fp_unit = JString ''car_km'', co2_equivalent_kg = Num (- 1),
           calculation_method = ''IPCC Guidelines'', location_factor = 1,
           calculated_at = t \<rparr>"
  by (simp add: car_trip_def footprint_car_trip_minus_5)

subsection \<open>Activity ingest\<close>

text \<open>
  C1. For every activity report whose category and unit have an entry in the static
  table and whose quantity converts to a number, the factor looked up is the double
  \<open>fd\<close> nearest to the decimal of the table, and the impact that
  \<^verbatim>\<open>calculateCarbonFootprint\<close> computes, and that the \<^verbatim>\<open>log_activity\<close> handler puts
  into the event it emits, is the quantity times that factor in the arithmetic of
  doubles. For a finite quantity \<open>x\<close> (either zero counting as 0) it is never NaN; when
  it is finite it is a double nearest to the exact product \<open>x * fd\<close>, and the exact
  product itself whenever that is a double; it is infinite only when the exact product
  is beyond the largest double by half a spacing or more, and it is infinite whenever
  the exact product reaches \<^verbatim>\<open>2^1024\<close>. For an infinite quantity and for NaN it is that
  same value. The witness is the case of the claim: transportation, quantity 10, unit
  car_km, factor 0.2, impact 2.
\<close>

theorem C1_impact_is_quantity_times_factor:
  assumes "table_factor c un = Some f"
    and "ToNumber g q = Inr n"
  shows "\<exists>fd i.
           js_literal f = Num fd \<and> nearest_double f fd
         \<and> map_sum id co2_equivalent_kg
             (calculateCarbonFootprint g t (JString c) q (JString un) loc) = Inr i
         \<and> log_activity g e s u
             (Some \<lparr> category = JString c, quantity = q, unit = JString un, description = d \<rparr>) st
           = socket_emit s
               (Recommendation_updated
                  (generatePersonalizedRecommendations e (user_id u) (JString c)))
               (io_emit
                  (Activity_logged
                     \<lparr> ae_user_id = user_id u, ae_category = JString c, ae_impact = i,
                       ae_timestamp = now e, ae_description = d \<rparr>) st)
         \<and> (\<forall>x. number_value n = Some x \<longrightarrow>
                i \<noteq> NaN
              \<and> (\<forall>r. number_value i = Some r \<longrightarrow> nearest_double (x * fd) r)
              \<and> (is_double (x * fd) \<longrightarrow> number_value i = Some (x * fd))
              \<and> (number_value i = None
                   \<longrightarrow> 2 ^ max_exponent - 2 ^ (max_exponent - 54) \<le> \<bar>x * fd\<bar>)
              \<and> (2 ^ max_exponent \<le> \<bar>x * fd\<bar>
                   \<longrightarrow> i = (if x * fd < 0 then NegInfinity else PosInfinity)))
         \<and> (number_value n = None \<longrightarrow> i = n)"
proof -
  from table_literal [OF assms(1)] obtain fd
    where fd: "js_literal f = Num fd" "0 < fd" "nearest_double f fd"
    by blast
  then have "factor_of g (JString c) (JString un) = Inr (Num fd)"
    by (intro factor_of_table [OF assms(1)]) simp_all
  with assms(2) have calc: "calculateCarbonFootprint g t' (JString c) q (JString un) loc' =
      Inr \<lparr> fp_activity_type = JString c, fp_quantity = q, fp_unit = JString un,
            co2_equivalent_kg = js_mul n (Num fd),
            calculation_method = ''IPCC Guidelines'',
            location_factor = (if loc' = ''US'' then 1 else 8 / 10),
            calculated_at = t' \<rparr>" for t' loc'
    by (simp add: calculateCarbonFootprint_def)
  have "map_sum id co2_equivalent_kg
          (calculateCarbonFootprint g t (JString c) q (JString un) loc)
        = Inr (js_mul n (Num fd))"
    by (simp add: calc)
  moreover have "log_activity g e s u
             (Some \<lparr> category = JString c, quantity = q, unit = JString un, description = d \<rparr>) st
           = socket_emit s
               (Recommendation_updated
                  (generatePersonalizedRecommendations e (user_id u) (JString c)))
               (io_emit
                  (Activity_logged
                     \<lparr> ae_user_id = user_id u, ae_category = JString c,
                       ae_impact = js_mul n (Num fd),
                       ae_timestamp = now e, ae_description = d \<rparr>) st)"
    by (simp add: calc log_activity_def)
  moreover have "\<forall>x. number_value n = Some x \<longrightarrow>
                js_mul n (Num fd) \<noteq> NaN
              \<and> (\<forall>r. number_value (js_mul n (Num fd)) = Some r \<longrightarrow> nearest_double (x * fd) r)
              \<and> (is_double (x * fd) \<longrightarrow> number_value (js_mul n (Num fd)) = Some (x * fd))
              \<and> (number_value (js_mul n (Num fd)) = None
                   \<longrightarrow> 2 ^ max_exponent - 2 ^ (max_exponent - 54) \<le> \<bar>x * fd\<bar>)
              \<and> (2 ^ max_exponent \<le> \<bar>x * fd\<bar>
                   \<longrightarrow> js_mul n (Num fd) = (if x * fd < 0 then NegInfinity else PosInfinity))"
    using js_mul_finite [OF fd(2)] by blast
  moreover have "number_value n = None \<longrightarrow> js_mul n (Num fd) = n"
    using js_mul_not_finite [OF fd(2)] by blast
  ultimately show ?thesis
    using fd(1,3)
    by (intro exI [of _ fd] exI [of _ "js_mul n (Num fd)"] conjI) assumption+
qed

theorem C1_witness:
  "table_factor ''transportation'' ''car_km'' = Some (2 / 10)
   \<and> js_literal (2 / 10) = Num (3602879701896397 / 18014398509481984)
   \<and> nearest_double (2 / 10) (3602879701896397 / 18014398509481984)
   \<and> map_sum id co2_equivalent_kg
       (calculateCarbonFootprint example_engine ''now'' (JString ''transportation'')
          (JNumber (Num 10)) (JString ''car_km'') ''US'') = Inr (Num 2)
   \<and> nearest_double (10 * (3602879701896397 / 18014398509481984)) 2
   \<and> outbox (log_activity example_engine example_env 11 alice (Some (car_trip 10))
               example_server) 12
     = [Activity_logged \<lparr> ae_user_id = ''7'', ae_category = JString ''transportation'',
                          ae_impact = Num 2, ae_timestamp = ''2024-05-01T10:00:00.000Z'',
                          ae_description = JString ''commute'' \<rparr>]"
proof -
  have h: "table_factor ''transportation'' ''car_km'' = Some (2 / 10)"
    by (simp add: table_factor_def emissionFactors_def)
  have n: "ToNumber example_engine (JNumber (Num 10)) = Inr (Num 10)"
    by simp
  from C1_impact_is_quantity_times_factor
         [OF h n, of "''now''" "''US''" example_env 11 alice "JString ''commute''" example_server]
  obtain fd i where
    fd: "js_literal (2 / 10) = Num fd" and near: "nearest_double (2 / 10) fd"
    and i: "map_sum id co2_equivalent_kg
             (calculateCarbonFootprint example_engine ''now'' (JString ''transportation'')
                (JNumber (Num 10)) (JString ''car_km'') ''US'') = Inr i"
    and prod: "\<forall>x. number_value (Num 10) = Some x \<longrightarrow>
                 (\<forall>r. number_value i = Some r \<longrightarrow> nearest_double (x * fd) r)"
    by blast
  from fd have fd': "fd = 3602879701896397 / 18014398509481984"
    by (simp add: literal_car_km)
  from i have i': "i = Num 2"
    by (simp add: footprint_car_trip_10)
  from prod have "nearest_double (10 * fd) 2"
    by (simp add: i')
  moreover have "outbox (log_activity example_engine example_env 11 alice (Some (car_trip 10))
               example_server) 12
     = [Activity_logged \<lparr> ae_user_id = ''7'', ae_category = JString ''transportation'',
                          ae_impact = Num 2, ae_timestamp = ''2024-05-01T10:00:00.000Z'',
                          ae_description = JString ''commute'' \<rparr>]"
    by (simp add: log_activity_success [OF footprint_of_car_trip_10] example_server_facts)
       (simp add: car_trip_def alice_def example_env_def)
  ultimately show ?thesis
    using h near fd by (simp add: fd' footprint_car_trip_10)
qed

text \<open>
  C2. The claim: a pair that is not in the table has factor 1. The code reads the table
  with \<^verbatim>\<open>emissionFactors[activity_type]?.[unit]\<close>, which also finds the properties the
  object literals inherit. For category transportation, quantity 10 and unit
  \<^verbatim>\<open>constructor\<close> the pair is not in the table, the lookup yields the inherited
  function \<^verbatim>\<open>Object\<close>, which is truthy, and the impact is NaN, not 10.
\<close>

theorem C2_inherited_key_is_not_defaulted:
  "table_factor ''transportation'' ''constructor'' = None
   \<and> map_sum id co2_equivalent_kg
       (calculateCarbonFootprint g t (JString ''transportation'') (JNumber (Num 10))
          (JString ''constructor'') loc) = Inr NaN
   \<and> js_mul (Num 10) (Num 1) = Num 10"
  by (simp add: table_factor_def calculateCarbonFootprint_def factor_of_def ToPropertyKey_def
      get_unit_def js_or_def emissionFactors_def object_prototype_def mul_10_1)
     (simp add: js_mul_def)

text \<open>
  C3, as stated, fails: the handler validates nothing. With quantity -5 the report is
  ingested: the other connection receives \<^verbatim>\<open>activity.logged\<close> with impact -1, and the
  sender receives no \<^verbatim>\<open>error\<close> event.
\<close>

theorem C3_negative_quantity_is_published:
  "outbox (log_activity example_engine example_env 11 alice (Some (car_trip (- 5)))
             example_server) 12
   = [Activity_logged \<lparr> ae_user_id = ''7'', ae_category = JString ''transportation'',
                        ae_impact = Num (- 1), ae_timestamp = ''2024-05-01T10:00:00.000Z'',
                        ae_description = JString ''commute'' \<rparr>]
   \<and> filter is_error_event
        (outbox (log_activity example_engine example_env 11 alice (Some (car_trip (- 5)))
                   example_server) 11) = []"
  by (simp add: log_activity_success [OF footprint_of_car_trip_minus_5] example_server_facts)
     (simp add: car_trip_def alice_def example_env_def)

text \<open>
  C3, amended. A non-positive quantity, an unrecognised category and missing fields are
  not rejected: a report whose quantity is a number of either sign or missing, whose
  category is a string that is no property name of \<^verbatim>\<open>Object.prototype\<close> or missing,
  and whose unit is a string or missing, is ingested and published, and no \<^verbatim>\<open>error\<close>
  event is emitted to any connection. Whenever ingest does fail, which it does when the
  payload is missing and when the calculation throws, it makes no publish call: the
  server state changes only by one \<^verbatim>\<open>error\<close> event, appended to the outbox of the
  originating connection, and every other connection's outbox is as before.
\<close>

theorem C3_failure_is_reported_to_sender_only:
  "(data = None
      \<or> (\<exists>d err. data = Some d \<and>
            calculateCarbonFootprint g (now e) (category d) (quantity d) (unit d) ''US''
            = Inl err)
    \<longrightarrow> log_activity g e s u data st
          = socket_emit s (Error_event ''Failed to log activity'') st
        \<and> outbox (log_activity g e s u data st) s
          = outbox st s @ [Error_event ''Failed to log activity'']
        \<and> (\<forall>c. c \<noteq> s \<longrightarrow> outbox (log_activity g e s u data st) c = outbox st c))
   \<and> ((category r = JUndefined \<or> (\<exists>k. category r = JString k \<and> k \<notin> set object_prototype))
      \<and> (quantity r = JUndefined \<or> (\<exists>n. quantity r = JNumber n))
      \<and> (unit r = JUndefined \<or> (\<exists>k. unit r = JString k))
    \<longrightarrow> (\<exists>fp. calculateCarbonFootprint g (now e) (category r) (quantity r) (unit r) ''US''
                = Inr fp
              \<and> log_activity g e s u (Some r) st
                = socket_emit s
                    (Recommendation_updated
                       (generatePersonalizedRecommendations e (user_id u) (category r)))
                    (io_emit
                       (Activity_logged
                          \<lparr> ae_user_id = user_id u, ae_category = category r,
                            ae_impact = co2_equivalent_kg fp,
                            ae_timestamp = now e, ae_description = description r \<rparr>) st))
        \<and> (\<forall>c. filter is_error_event (outbox (log_activity g e s u (Some r) st) c)
              = filter is_error_event (outbox st c)))"
proof (intro conjI impI)
  assume f: "data = None
      \<or> (\<exists>d err. data = Some d \<and>
            calculateCarbonFootprint g (now e) (category d) (quantity d) (unit d) ''US''
            = Inl err)"
  then show eq: "log_activity g e s u data st
          = socket_emit s (Error_event ''Failed to log activity'') st"
    by (rule log_activity_failure)
  show "outbox (log_activity g e s u data st) s
          = outbox st s @ [Error_event ''Failed to log activity'']"
    by (simp add: eq)
  show "\<forall>c. c \<noteq> s \<longrightarrow> outbox (log_activity g e s u data st) c = outbox st c"
    by (simp add: eq)
next
  assume "(category r = JUndefined \<or> (\<exists>k. category r = JString k \<and> k \<notin> set object_prototype))
      \<and> (quantity r = JUndefined \<or> (\<exists>n. quantity r = JNumber n))
      \<and> (unit r = JUndefined \<or> (\<exists>k. unit r = JString k))"
  then obtain fp where
    fp: "calculateCarbonFootprint g (now e) (category r) (quantity r) (unit r) ''US'' = Inr fp"
    using calculateCarbonFootprint_total [of "category r" "quantity r" "unit r"] by blast
  then show "\<exists>fp. calculateCarbonFootprint g (now e) (category r) (quantity r) (unit r) ''US''
                = Inr fp
              \<and> log_activity g e s u (Some r) st
                = socket_emit s
                    (Recommendation_updated
                       (generatePersonalizedRecommendations e (user_id u) (category r)))
                    (io_emit
                       (Activity_logged
                          \<lparr> ae_user_id = user_id u, ae_category = category r,
                            ae_impact = co2_equivalent_kg fp,
                            ae_timestamp = now e, ae_description = description r \<rparr>) st)"
    using log_activity_success by blast
  from fp show "\<forall>c. filter is_error_event (outbox (log_activity g e s u (Some r) st) c)
            = filter is_error_event (outbox st c)"
    by (simp add: log_activity_success)
qed

theorem C3_witness:
  "outbox (log_activity example_engine example_env 11 alice None example_server) 11
     = [Error_event ''Failed to log activity'']
   \<and> outbox (log_activity example_engine example_env 11 alice None example_server) 12 = []
   \<and> outbox (log_activity example_engine example_env 11 alice
               (Some \<lparr> category = JString ''transportation'',
                       quantity = JObject [(''toString'', JNumber (Num 1)),
                                           (''valueOf'', JNumber (Num 1))],
                       unit = JString ''car_km'', description = JUndefined \<rparr>)
               example_server) 11
     = [Error_event ''Failed to log activity'']
   \<and> outbox (log_activity example_engine example_env 11 alice
               (Some \<lparr> category = JString ''transportation'',
                       quantity = JObject [(''toString'', JNumber (Num 1)),
                                           (''valueOf'', JNumber (Num 1))],
                       unit = JString ''car_km'', description = JUndefined \<rparr>)
               example_server) 12
     = []
   \<and> filter is_error_event
       (outbox (log_activity example_engine example_env 11 alice (Some (car_trip (- 5)))
                  example_server) 11) = []"
proof -
  let ?d = "\<lparr> category = JString ''transportation'',
               quantity = JObject [(''toString'', JNumber (Num 1)),
                                   (''valueOf'', JNumber (Num 1))],
               unit = JString ''car_km'', description = JUndefined \<rparr>"
  have t: "\<exists>d err. Some ?d = Some d \<and>
             calculateCarbonFootprint example_engine (now example_env) (category d)
               (quantity d) (unit d) ''US'' = Inl err"
    using calculateCarbonFootprint_throws [of example_engine "now example_env" "''US''"]
    by simp
  have k: "(category (car_trip (- 5)) = JUndefined
              \<or> (\<exists>k. category (car_trip (- 5)) = JString k \<and> k \<notin> set object_prototype))
         \<and> (quantity (car_trip (- 5)) = JUndefined
              \<or> (\<exists>n. quantity (car_trip (- 5)) = JNumber n))
         \<and> (unit (car_trip (- 5)) = JUndefined \<or> (\<exists>k. unit (car_trip (- 5)) = JString k))"
    by (simp add: car_trip_def object_prototype_def)
  show ?thesis
    using t k
      C3_failure_is_reported_to_sender_only
        [of None example_engine example_env 11 alice example_server "car_trip (- 5)"]
      C3_failure_is_reported_to_sender_only
        [of "Some ?d" example_engine example_env 11 alice example_server "car_trip (- 5)"]
    by (simp add: example_server_facts)
qed

text \<open>
  C4, as stated, fails in its second half: the recommendation refresh is sent with
  \<^verbatim>\<open>socket.emit\<close>, to the originating socket, not to the room of the user. When Alice
  is connected from two devices and logs an activity on the first, the second, a member
  of her room, receives the activity event and no recommendation.
\<close>

theorem C4_other_device_gets_no_recommendation:
  "12 \<in> membersOf two_devices (user_room (user_id alice))
   \<and> sockets two_devices 12 = Some alice
   \<and> filter is_recommendation_updated
       (outbox (log_activity example_engine example_env 11 alice (Some (car_trip 10))
                  two_devices) 12) = []"
  by (simp add: log_activity_success [OF footprint_of_car_trip_10] two_devices_facts alice_def)

text \<open>
  C4, amended. After a successful ingest from a connected socket \<open>s\<close> of user \<open>u\<close>,
  every connected socket has received one \<^verbatim>\<open>activity.logged\<close> event holding the user's
  id, the category, the impact, the timestamp and the description; after it, the
  originating socket, and no other, has received \<^verbatim>\<open>recommendation.updated\<close>.
\<close>

theorem C4_activity_to_all_recommendation_to_sender:
  assumes "sockets st s = Some u"
    and "calculateCarbonFootprint g (now e) (category d) (quantity d) (unit d) ''US''
         = Inr fp"
  shows "outbox (log_activity g e s u (Some d) st) c
         = (if c = s
            then outbox st c @
                 [Activity_logged
                    \<lparr> ae_user_id = user_id u, ae_category = category d,
                      ae_impact = co2_equivalent_kg fp,
                      ae_timestamp = now e, ae_description = description d \<rparr>,
                  Recommendation_updated
                    (generatePersonalizedRecommendations e (user_id u) (category d))]
            else if c \<in> dom (sockets st)
            then outbox st c @
                 [Activity_logged
                    \<lparr> ae_user_id = user_id u, ae_category = category d,
                      ae_impact = co2_equivalent_kg fp,
                      ae_timestamp = now e, ae_description = description d \<rparr>]
            else outbox st c)"
  using assms(1) by (auto simp: log_activity_success [OF assms(2)])

theorem C4_witness:
  "outbox (log_activity example_engine example_env 11 alice (Some (car_trip 10)) two_devices) 11
   = [Activity_logged
        \<lparr> ae_user_id = ''7'', ae_category = JString ''transportation'', ae_impact = Num 2,
          ae_timestamp = ''2024-05-01T10:00:00.000Z'', ae_description = JString ''commute'' \<rparr>,
      Recommendation_updated
        (generatePersonalizedRecommendations example_env ''7'' (JString ''transportation''))]
   \<and> outbox (log_activity example_engine example_env 11 alice (Some (car_trip 10)) two_devices) 12
   = [Activity_logged
        \<lparr> ae_user_id = ''7'', ae_category = JString ''transportation'', ae_impact = Num 2,
          ae_timestamp = ''2024-05-01T10:00:00.000Z'', ae_description = JString ''commute'' \<rparr>]"
proof -
  have a: "sockets two_devices 11 = Some alice"
    by (simp add: two_devices_facts)
  note b = footprint_of_car_trip_10 [of "now example_env"]
  show ?thesis
    using C4_activity_to_all_recommendation_to_sender [OF a b, of 11]
      C4_activity_to_all_recommendation_to_sender [OF a b, of 12]
    by (simp add: two_devices_facts car_trip_def alice_def example_env_def)
qed

text \<open>
  C10, as stated, fails for an empty category: the source filters the static list only
  when \<^verbatim>\<open>category\<close> is truthy. A report with category \<^verbatim>\<open>""\<close> is ingested, no entry
  of the static list has that category, and the refresh holds all three entries.
\<close>

theorem C10_empty_category_gets_whole_list:
  "filter is_recommendation_updated
     (outbox (log_activity example_engine example_env 11 alice
                (Some \<lparr> category = JString [], quantity = JNumber (Num 3),
                        unit = JString ''km'', description = JUndefined \<rparr>) example_server) 11)
   = [Recommendation_updated
        \<lparr> recs_user_id = ''7'', recs_list = mockRecommendations (uuidv4 example_env),
          generated_at = now example_env, next_refresh = in_a_week example_env \<rparr>]
   \<and> with_category [] (mockRecommendations (uuidv4 example_env)) = []
   \<and> length (mockRecommendations (uuidv4 example_env)) = 3"
  by (simp add: log_activity_def calculateCarbonFootprint_def factor_of_def ToPropertyKey_def
      emissionFactors_def object_prototype_def js_or_def example_server_facts alice_def
      generatePersonalizedRecommendations_def with_category_def mockRecommendations_def)

text \<open>
  C10, amended. After a successful ingest, the last event the originating socket has
  received is the recommendation refresh. When the category of the report is a non-empty
  string, its list is exactly the entries of the static list with that category, hence
  empty for every category other than energy, transportation and waste (diet, for one).
  When the category is missing or the empty string, its list is the whole static list.
\<close>

theorem C10_recommendations_of_the_category:
  assumes "calculateCarbonFootprint g (now e) (category d) (quantity d) (unit d) ''US''
           = Inr fp"
  shows "last (outbox (log_activity g e s u (Some d) st) s)
         = Recommendation_updated (generatePersonalizedRecommendations e (user_id u) (category d))
       \<and> (category d = JString c \<and> c \<noteq> []
          \<longrightarrow> recs_list (generatePersonalizedRecommendations e (user_id u) (category d))
              = with_category c (mockRecommendations (uuidv4 e)))
       \<and> (category d = JString c \<and> c \<noteq> [] \<and> c \<notin> {''energy'', ''transportation'', ''waste''}
          \<longrightarrow> recs_list (generatePersonalizedRecommendations e (user_id u) (category d)) = [])
       \<and> (category d = JUndefined \<or> category d = JString []
          \<longrightarrow> recs_list (generatePersonalizedRecommendations e (user_id u) (category d))
              = mockRecommendations (uuidv4 e))"
proof (intro conjI impI)
  show "last (outbox (log_activity g e s u (Some d) st) s)
         = Recommendation_updated (generatePersonalizedRecommendations e (user_id u) (category d))"
    by (simp add: log_activity_success [OF assms])
next
  assume "category d = JString c \<and> c \<noteq> []"
  then show "recs_list (generatePersonalizedRecommendations e (user_id u) (category d))
              = with_category c (mockRecommendations (uuidv4 e))"
    by (auto simp: generatePersonalizedRecommendations_def with_category_def
        intro: filter_cong)
next
  assume "category d = JString c \<and> c \<noteq> [] \<and> c \<notin> {''energy'', ''transportation'', ''waste''}"
  then show "recs_list (generatePersonalizedRecommendations e (user_id u) (category d)) = []"
    by (auto simp: generatePersonalizedRecommendations_def mockRecommendations_def)
next
  assume "category d = JUndefined \<or> category d = JString []"
  then show "recs_list (generatePersonalizedRecommendations e (user_id u) (category d))
              = mockRecommendations (uuidv4 e)"
    by (auto simp: generatePersonalizedRecommendations_def)
qed

theorem C10_witness:
  "last (outbox (log_activity example_engine example_env 11 alice
                   (Some \<lparr> category = JString ''diet'', quantity = JNumber (Num 2),
                           unit = JString ''beef_kg'', description = JUndefined \<rparr>)
                   example_server) 11)
   = Recommendation_updated
       \<lparr> recs_user_id = ''7'', recs_list = [],
         generated_at = now example_env, next_refresh = in_a_week example_env \<rparr>
   \<and> recs_list (generatePersonalizedRecommendations example_env ''7'' JUndefined)
     = mockRecommendations (uuidv4 example_env)"
proof -
  let ?d = "\<lparr> category = JString ''diet'', quantity = JNumber (Num 2),
               unit = JString ''beef_kg'', description = JUndefined \<rparr>"
  let ?n = "\<lparr> category = JUndefined, quantity = JNumber (Num 2),
               unit = JString ''beef_kg'', description = JUndefined \<rparr>"
  have a: "calculateCarbonFootprint example_engine (now example_env)
             (category ?d) (quantity ?d) (unit ?d) ''US''
           = Inr \<lparr> fp_activity_type = JString ''diet'', fp_quantity = JNumber (Num 2),
                   fp_unit = JString ''beef_kg'', co2_equivalent_kg = Num 120,
                   calculation_method = ''IPCC Guidelines'', location_factor = 1,
                   calculated_at = now example_env \<rparr>"
    by (simp add: calculateCarbonFootprint_def factor_of_def ToPropertyKey_def get_unit_def
        js_or_def emissionFactors_def literal_beef_kg mul_2_beef_kg)
  have b: "generatePersonalizedRecommendations example_env ''7'' (JString ''diet'')
           = \<lparr> recs_user_id = ''7'', recs_list = [],
               generated_at = now example_env, next_refresh = in_a_week example_env \<rparr>"
    by (simp add: generatePersonalizedRecommendations_def mockRecommendations_def)
  have c: "calculateCarbonFootprint example_engine (now example_env)
             (category ?n) (quantity ?n) (unit ?n) ''US''
           = Inr \<lparr> fp_activity_type = JUndefined, fp_quantity = JNumber (Num 2),
                   fp_unit = JString ''beef_kg'', co2_equivalent_kg = Num 2,
                   calculation_method = ''IPCC Guidelines'', location_factor = 1,
                   calculated_at = now example_env \<rparr>"
    by (simp add: calculateCarbonFootprint_def factor_of_def ToPropertyKey_def get_unit_def
        js_or_def emissionFactors_def object_prototype_def mul_2_1)
  show ?thesis
    using C10_recommendations_of_the_category
            [OF a, of 11 alice example_server "''diet''"] b
          C10_recommendations_of_the_category
            [OF c, of 11 alice example_server "''diet''"]
    by (simp add: alice_def)
qed

subsection \<open>Invariants of the server's runs\<close>

text \<open>Events other than joining, leaving and disconnecting change no binding and no room.\<close>

lemma log_activity_keeps [simp]:
  "sockets (log_activity g e s u data st) = sockets st"
  "membersOf (log_activity g e s u data st) = membersOf st"
  "roomsOf (log_activity g e s u data st) = roomsOf st"
  by (simp_all add: log_activity_def Let_def split: option.splits sum.splits)

lemma update_goal_keeps [simp]:
  "sockets (update_goal e s u data st) = sockets st"
  "membersOf (update_goal e s u data st) = membersOf st"
  "roomsOf (update_goal e s u data st) = roomsOf st"
  by (simp_all add: update_goal_def Let_def split: option.splits)

lemma update_challenge_progress_keeps [simp]:
  "sockets (update_challenge_progress e s u data st) = sockets st"
  "membersOf (update_challenge_progress e s u data st) = membersOf st"
  "roomsOf (update_challenge_progress e s u data st) = roomsOf st"
  by (simp_all add: update_challenge_progress_def Let_def split: option.splits)

lemma webinar_message_keeps [simp]:
  "sockets (webinar_message e s u data st) = sockets st"
  "membersOf (webinar_message e s u data st) = membersOf st"
  "roomsOf (webinar_message e s u data st) = roomsOf st"
  by (simp_all add: webinar_message_def Let_def split: option.splits)

lemma roomsOf_disconnect:
  "roomsOf (disconnect s st) c = (if c = s then {} else roomsOf st c)"
  by (simp add: disconnect_def roomsOf_def)

text \<open>
  No handler takes a socket out of the room of its user: the only room a client can
  leave is a webinar room, whose name starts differently.
\<close>

lemma on_event_in_own_room:
  assumes "on_event g e s u ev st = Inr st'"
    and "in_own_room st"
  shows "in_own_room st'"
proof (cases ev)
  case (Join_webinar data)
  with assms show ?thesis
    by (auto simp: in_own_room_def join_webinar_def membersOf_join split: option.splits)
next
  case (Leave_webinar data)
  with assms show ?thesis
    by (auto simp: in_own_room_def leave_webinar_def membersOf_leave split: option.splits)
next
  case Disconnect
  with assms show ?thesis
    by (auto simp: in_own_room_def membersOf_disconnect split: if_splits)
qed (use assms in \<open>auto simp: in_own_room_def\<close>)

lemma receive_in_own_room:
  assumes "receive g e s ev st = Inr st'"
    and "in_own_room st"
  shows "in_own_room st'"
  using assms on_event_in_own_room
  by (auto simp: receive_def split: option.splits)

lemma connect_in_own_room:
  assumes "in_own_room st"
  shows "in_own_room (snd (connect a s token st))"
proof (cases "io_use a token")
  case (Inl err)
  with assms show ?thesis
    by (simp add: connect_def)
next
  case (Inr u)
  have "c \<in> membersOf (connection s u st) (user_room (user_id v))"
    if "sockets (connection s u st) c = Some v" for c v
  proof (cases "c = s")
    case True
    with that show ?thesis
      by (simp add: membersOf_connection)
  next
    case False
    with that have "sockets st c = Some v"
      by simp
    with assms have "c \<in> membersOf st (user_room (user_id v))"
      by (simp add: in_own_room_def)
    then show ?thesis
      by (auto simp: membersOf_connection)
  qed
  with Inr show ?thesis
    by (simp add: connect_def in_own_room_def)
qed

lemma run_in_own_room:
  assumes "run a g os st = Inr st'"
    and "in_own_room st"
  shows "in_own_room st'"
  using assms
proof (induction os arbitrary: st)
  case Nil
  then show ?case by simp
next
  case (Cons x os)
  show ?case
  proof (cases x)
    case (Connects s token)
    with Cons show ?thesis
      by (simp add: connect_in_own_room)
  next
    case (Sends s e ev)
    with Cons show ?thesis
      by (auto split: sum.splits dest: receive_in_own_room)
  qed
qed

lemma in_own_room_init: "in_own_room init"
  by (simp add: in_own_room_def)

text \<open>The two sides of the membership relation stay in step.\<close>

lemma join_consistent:
  assumes "consistent st"
  shows "consistent (join s r st)"
  unfolding consistent_def
proof (intro allI)
  fix c r'
  from assms have "(c \<in> membersOf st r') = (r' \<in> roomsOf st c)"
    by (simp add: consistent_def)
  then show "(c \<in> membersOf (join s r st) r') = (r' \<in> roomsOf (join s r st) c)"
    by (auto simp: membersOf_join roomsOf_join)
qed

lemma leave_consistent:
  assumes "consistent st"
  shows "consistent (leave s r st)"
  unfolding consistent_def
proof (intro allI)
  fix c r'
  from assms have "(c \<in> membersOf st r') = (r' \<in> roomsOf st c)"
    by (simp add: consistent_def)
  then show "(c \<in> membersOf (leave s r st) r') = (r' \<in> roomsOf (leave s r st) c)"
    by (auto simp: membersOf_leave roomsOf_leave)
qed

lemma disconnect_consistent:
  assumes "consistent st"
  shows "consistent (disconnect s st)"
  unfolding consistent_def
proof (intro allI)
  fix c r'
  from assms have "(c \<in> membersOf st r') = (r' \<in> roomsOf st c)"
    and "(s \<in> membersOf st r') = (r' \<in> roomsOf st s)"
    by (simp_all add: consistent_def)
  then show "(c \<in> membersOf (disconnect s st) r') = (r' \<in> roomsOf (disconnect s st) c)"
    by (auto simp: membersOf_disconnect roomsOf_disconnect)
qed

lemma emit_consistent [simp]:
  "consistent (socket_emit s m st) = consistent st"
  "consistent (io_emit m st) = consistent st"
  "consistent (io_to_emit r m st) = consistent st"
  by (simp_all add: consistent_def)

lemma on_event_consistent:
  assumes "on_event g e s u ev st = Inr st'"
    and "consistent st"
  shows "consistent st'"
proof (cases ev)
  case (Join_webinar data)
  with assms show ?thesis
    by (auto simp: join_webinar_def join_consistent split: option.splits)
next
  case (Leave_webinar data)
  with assms show ?thesis
    by (auto simp: leave_webinar_def leave_consistent split: option.splits)
next
  case Disconnect
  with assms show ?thesis
    by (auto simp: disconnect_consistent)
qed (use assms in \<open>auto simp: consistent_def\<close>)

lemma receive_consistent:
  assumes "receive g e s ev st = Inr st'"
    and "consistent st"
  shows "consistent st'"
  using assms on_event_consistent
  by (auto simp: receive_def split: option.splits)

lemma connect_consistent:
  assumes "consistent st"
  shows "consistent (snd (connect a s token st))"
proof (cases "io_use a token")
  case (Inl err)
  with assms show ?thesis
    by (simp add: connect_def)
next
  case (Inr u)
  have "consistent (st \<lparr> sockets := (sockets st)(s \<mapsto> u) \<rparr>)"
    using assms by (simp add: consistent_def membersOf_def roomsOf_def)
  then have "consistent (connection s u st)"
    unfolding connection_def by (rule join_consistent)
  with Inr show ?thesis
    by (simp add: connect_def)
qed

lemma run_consistent:
  assumes "run a g os st = Inr st'"
    and "consistent st"
  shows "consistent st'"
  using assms
proof (induction os arbitrary: st)
  case Nil
  then show ?case by simp
next
  case (Cons x os)
  show ?case
  proof (cases x)
    case (Connects s token)
    with Cons show ?thesis
      by (simp add: connect_consistent)
  next
    case (Sends s e ev)
    with Cons show ?thesis
      by (auto split: sum.splits dest: receive_consistent)
  qed
qed

lemma consistent_init: "consistent init"
  by (simp add: consistent_def)

subsection \<open>Rooms and delivery\<close>

text \<open>
  C5. Sockets \<open>a\<close> and \<open>b\<close>, connected, send \<^verbatim>\<open>join_webinar\<close> for the same webinar;
  \<open>c\<close> is not in that room. When \<open>a\<close> then sends \<^verbatim>\<open>webinar_message\<close> for that
  webinar, \<open>b\<close> receives \<^verbatim>\<open>new_webinar_message\<close> with the id and name of the user of
  \<open>a\<close> as sender and with the text sent, and \<open>c\<close> receives nothing. The witness is the
  scenario of the claim: webinar 42, text hi.
\<close>

theorem C5_webinar_message_reaches_the_room:
  assumes "sockets st0 a = Some ua"
    and "sockets st0 b = Some ub"
    and "receive g e1 a (Join_webinar (Some w)) st0 = Inr st1"
    and "receive g e2 b (Join_webinar (Some w)) st1 = Inr st2"
    and "c \<notin> membersOf st2 (webinar_room w)"
    and "receive g e3 a
           (Webinar_message (Some \<lparr> wt_webinar_id = w, wt_message_text = txt \<rparr>)) st2
         = Inr st3"
  shows "a \<in> membersOf st2 (webinar_room w) \<and> b \<in> membersOf st2 (webinar_room w)
       \<and> outbox st3 b
         = outbox st2 b @
           [New_webinar_message
              \<lparr> me_webinar_id = w, me_message_text = txt, me_sender_id = user_id ua,
                me_sender_username = username ua, me_timestamp = now e3 \<rparr>]
       \<and> outbox st3 c = outbox st2 c"
proof -
  from assms(1,3) have st1: "st1 = socket_emit a (Webinar_joined w ''Successfully joined webinar'')
                                (join a (webinar_room w) st0)"
    by (simp add: receive_def join_webinar_def)
  then have b1: "sockets st1 b = Some ub" and a1: "sockets st1 a = Some ua"
    using assms(1,2) by simp_all
  from b1 assms(4) have st2: "st2 = socket_emit b (Webinar_joined w ''Successfully joined webinar'')
                                (join b (webinar_room w) st1)"
    by (simp add: receive_def join_webinar_def)
  then have a2: "sockets st2 a = Some ua"
    using a1 by simp
  have ma: "a \<in> membersOf st2 (webinar_room w)" and mb: "b \<in> membersOf st2 (webinar_room w)"
    by (simp_all add: st1 st2 membersOf_join)
  from a2 assms(6) have st3: "st3 = io_to_emit (webinar_room w)
        (New_webinar_message
              \<lparr> me_webinar_id = w, me_message_text = txt, me_sender_id = user_id ua,
                me_sender_username = username ua, me_timestamp = now e3 \<rparr>) st2"
    by (simp add: receive_def webinar_message_def)
  show ?thesis
    using ma mb assms(5) by (simp add: st3)
qed

theorem C5_witness:
  "outbox
     (webinar_message example_env 11 alice
        (Some \<lparr> wt_webinar_id = Some ''42'', wt_message_text = JString ''hi'' \<rparr>)
        (socket_emit 12 (Webinar_joined (Some ''42'') ''Successfully joined webinar'')
           (join 12 (webinar_room (Some ''42''))
              (socket_emit 11 (Webinar_joined (Some ''42'') ''Successfully joined webinar'')
                 (join 11 (webinar_room (Some ''42'')) example_server))))) 12
   = [Webinar_joined (Some ''42'') ''Successfully joined webinar'',
      New_webinar_message
        \<lparr> me_webinar_id = Some ''42'', me_message_text = JString ''hi'', me_sender_id = ''7'',
          me_sender_username = ''alice'', me_timestamp = ''2024-05-01T10:00:00.000Z'' \<rparr>]
   \<and> outbox
     (webinar_message example_env 11 alice
        (Some \<lparr> wt_webinar_id = Some ''42'', wt_message_text = JString ''hi'' \<rparr>)
        (socket_emit 12 (Webinar_joined (Some ''42'') ''Successfully joined webinar'')
           (join 12 (webinar_room (Some ''42''))
              (socket_emit 11 (Webinar_joined (Some ''42'') ''Successfully joined webinar'')
                 (join 11 (webinar_room (Some ''42'')) example_server))))) 13
   = []"
proof -
  let ?st1 = "socket_emit 11 (Webinar_joined (Some ''42'') ''Successfully joined webinar'')
                 (join 11 (webinar_room (Some ''42'')) example_server)"
  let ?st2 = "socket_emit 12 (Webinar_joined (Some ''42'') ''Successfully joined webinar'')
                 (join 12 (webinar_room (Some ''42'')) ?st1)"
  let ?st3 = "webinar_message example_env 11 alice
        (Some \<lparr> wt_webinar_id = Some ''42'', wt_message_text = JString ''hi'' \<rparr>) ?st2"
  have 1: "sockets example_server 11 = Some alice" and 2: "sockets example_server 12 = Some bob"
    by (simp_all add: example_server_facts)
  have 3: "receive example_engine example_env 11 (Join_webinar (Some (Some ''42''))) example_server
           = Inr ?st1"
    by (simp add: receive_def join_webinar_def 1)
  have 4: "receive example_engine example_env 12 (Join_webinar (Some (Some ''42''))) ?st1
           = Inr ?st2"
    by (simp add: receive_def join_webinar_def 2)
  have 5: "13 \<notin> membersOf ?st2 (webinar_room (Some ''42''))"
    by (simp add: membersOf_join example_server_def membersOf_connection)
  have 6: "receive example_engine example_env 11
             (Webinar_message (Some \<lparr> wt_webinar_id = Some ''42'',
                                      wt_message_text = JString ''hi'' \<rparr>)) ?st2
           = Inr ?st3"
    by (simp add: receive_def 1)
  show ?thesis
    using C5_webinar_message_reaches_the_room [OF 1 2 3 4 5 6]
    by (simp add: example_server_facts alice_def example_env_def)
qed

text \<open>
  C8. An event published to the room of user \<open>uid\<close> is delivered to every connection
  that is a member of that room and to no connection that is not; the
  \<^verbatim>\<open>update_goal\<close> handler publishes \<^verbatim>\<open>goal.updated\<close> in this way, to the room of the
  user of the socket it came from. In a state that a run of the server reaches, a
  connection whose own membership set lacks that room, having joined only other rooms,
  receives nothing.
\<close>

theorem C8_user_scope_delivers_to_the_room_only:
  "(c \<in> membersOf st (user_room uid)
      \<longrightarrow> outbox (io_to_emit (user_room uid) m st) c = outbox st c @ [m])
   \<and> (c \<notin> membersOf st (user_room uid)
      \<longrightarrow> outbox (io_to_emit (user_room uid) m st) c = outbox st c)
   \<and> (run a g os init = Inr st \<and> user_room uid \<notin> roomsOf st c
      \<longrightarrow> outbox (io_to_emit (user_room uid) m st) c = outbox st c)
   \<and> update_goal e s u (Some d) st
     = io_to_emit (user_room (user_id u))
         (Goal_updated
            \<lparr> ge_user_id = user_id u, ge_category = gu_category d, ge_target = gu_target d,
              ge_timeframe = gu_timeframe d, ge_updated_at = now e \<rparr>) st"
proof -
  have "run a g os init = Inr st \<and> user_room uid \<notin> roomsOf st c
        \<longrightarrow> c \<notin> membersOf st (user_room uid)"
    using run_consistent [OF _ consistent_init] by (auto simp: consistent_def)
  then show ?thesis
    by (auto simp: update_goal_def)
qed

theorem C8_witness:
  "outbox (update_goal example_env 11 alice
             (Some \<lparr> gu_category = JString ''energy'', gu_target = JNumber (Num 5),
                     gu_timeframe = JString ''month'' \<rparr>) two_devices) 12
   = [Goal_updated
        \<lparr> ge_user_id = ''7'', ge_category = JString ''energy'', ge_target = JNumber (Num 5),
          ge_timeframe = JString ''month'', ge_updated_at = ''2024-05-01T10:00:00.000Z'' \<rparr>]
   \<and> outbox (update_goal example_env 11 alice
             (Some \<lparr> gu_category = JString ''energy'', gu_target = JNumber (Num 5),
                     gu_timeframe = JString ''month'' \<rparr>) example_server) 12
   = []
   \<and> run example_auth example_engine
        [Connects 11 (Some ''token-alice''), Connects 12 (Some ''token-bob'')] init
     = Inr example_server
   \<and> user_room ''7'' \<notin> roomsOf example_server 12"
proof -
  let ?d = "\<lparr> gu_category = JString ''energy'', gu_target = JNumber (Num 5),
               gu_timeframe = JString ''month'' \<rparr>"
  let ?m = "Goal_updated
        \<lparr> ge_user_id = ''7'', ge_category = JString ''energy'', ge_target = JNumber (Num 5),
          ge_timeframe = JString ''month'', ge_updated_at = ''2024-05-01T10:00:00.000Z'' \<rparr>"
  let ?os = "[Connects 11 (Some ''token-alice''), Connects 12 (Some ''token-bob'')]"
  have 1: "12 \<in> membersOf two_devices (user_room ''7'')"
    by (simp add: two_devices_facts)
  have 2: "12 \<notin> membersOf example_server (user_room ''7'')"
    by (simp add: example_server_facts)
  have 3: "run example_auth example_engine ?os init = Inr example_server"
    by (simp add: connect_def io_use_def example_auth_def example_server_def)
  have 4: "user_room ''7'' \<notin> roomsOf example_server 12"
    by (simp add: example_server_def roomsOf_connection bob_def)
  show ?thesis
    using 1 2 3 4
      C8_user_scope_delivers_to_the_room_only
        [of 12 two_devices "''7''" ?m example_auth example_engine ?os example_env 11 alice ?d]
      C8_user_scope_delivers_to_the_room_only
        [of 12 example_server "''7''" ?m example_auth example_engine ?os example_env 11 alice ?d]
    by (simp add: two_devices_facts example_server_facts alice_def example_env_def)
qed

text \<open>
  C9. Joining a room twice in a row gives the same state as joining it once: the same
  member set of the room and the same membership set of the connection (and nothing else
  changes). Through the \<^verbatim>\<open>join_webinar\<close> handler, neither call is an error, and the
  second leaves both maps of the adapter as the first left them.
\<close>

theorem C9_join_is_idempotent:
  "join c r (join c r st) = join c r st
   \<and> membersOf (join c r (join c r st)) r = membersOf (join c r st) r
   \<and> roomsOf (join c r (join c r st)) c = roomsOf (join c r st) c
   \<and> (case join_webinar c (Some w) st of
        Inl err \<Rightarrow> False
      | Inr st1 \<Rightarrow>
          (case join_webinar c (Some w) st1 of
             Inl err \<Rightarrow> False
           | Inr st2 \<Rightarrow> rooms st2 = rooms st1 \<and> sids st2 = sids st1))"
proof -
  have idem: "join c r (join c r st) = join c r st" for r st
    by (simp add: join_def membersOf_def roomsOf_def)
  have "rooms (join c r (socket_emit c m (join c r st))) = rooms (join c r st)
      \<and> sids (join c r (socket_emit c m (join c r st))) = sids (join c r st)" for r m
    by (simp add: join_def membersOf_def roomsOf_def)
  then show ?thesis
    by (simp add: idem join_webinar_def)
qed

subsection \<open>Connecting\<close>

text \<open>
  C6. When the token is missing (or empty), when \<^verbatim>\<open>jwt.verify\<close> rejects it, or when
  the user it names is not found (or the query fails), the middleware answers with the
  authentication error; the connection is refused with it, the connection handler does
  not run, and the server state, in particular the binding of sockets to users, is what
  it was.
\<close>

theorem C6_bad_credential_is_refused:
  assumes "token = None \<or> token = Some []
         \<or> jwt_verify a (to_string token) = None
         \<or> (\<exists>decoded. jwt_verify a (to_string token) = Some decoded
               \<and> (query_user a decoded = None \<or> query_user a decoded = Some []))"
  shows "io_use a token = Inl authentication_error
       \<and> connect a s token st = (Some authentication_error, st)
       \<and> sockets (snd (connect a s token st)) s = sockets st s"
proof -
  have "io_use a token = Inl authentication_error"
    using assms by (cases token) (auto simp: io_use_def split: option.splits list.splits)
  then show ?thesis
    by (simp add: connect_def)
qed

theorem C6_witness:
  "connect example_auth 13 None example_server = (Some ''Authentication error'', example_server)
   \<and> connect example_auth 13 (Some []) example_server
     = (Some ''Authentication error'', example_server)
   \<and> connect example_auth 13 (Some ''garbage'') example_server
     = (Some ''Authentication error'', example_server)
   \<and> connect example_auth 13 (Some ''token-ghost'') example_server
     = (Some ''Authentication error'', example_server)
   \<and> sockets (snd (connect example_auth 13 (Some ''token-ghost'') example_server)) 13 = None"
proof -
  have 1: "jwt_verify example_auth (to_string (Some ''garbage'')) = None"
    by (simp add: example_auth_def)
  have 2: "\<exists>decoded. jwt_verify example_auth (to_string (Some ''token-ghost'')) = Some decoded
             \<and> (query_user example_auth decoded = None
                \<or> query_user example_auth decoded = Some [])"
    by (simp add: example_auth_def)
  have 3: "sockets example_server 13 = None"
    by (simp add: example_server_def)
  show ?thesis
    using C6_bad_credential_is_refused [of None example_auth 13 example_server]
      C6_bad_credential_is_refused [of "Some []" example_auth 13 example_server]
      C6_bad_credential_is_refused [of "Some ''garbage''" example_auth 13 example_server] 1
      C6_bad_credential_is_refused [of "Some ''token-ghost''" example_auth 13 example_server] 2
      3
    by (simp add: authentication_error_def)
qed

text \<open>
  C7. When the middleware accepts the credential and resolves it to user \<open>u\<close>, the
  connection attempt binds the socket to \<open>u\<close> and joins it to the room \<^verbatim>\<open>user_<id>\<close>
  of \<open>u\<close>, on both sides of the membership relation, without emitting anything. This
  comes before any event of the socket is processed: until the socket is connected an
  event from it finds no handler and changes nothing, and in every state that a run of
  the server reaches, each connected socket is a member of the room of its user.
\<close>

theorem C7_connection_binds_and_joins:
  assumes "io_use a token = Inr u"
  shows "connect a s token st = (None, connection s u st)
       \<and> sockets (connection s u st) s = Some u
       \<and> s \<in> membersOf (connection s u st) (user_room (user_id u))
       \<and> user_room (user_id u) \<in> roomsOf (connection s u st) s
       \<and> outbox (connection s u st) = outbox st
       \<and> (sockets st s = None \<longrightarrow> receive g e s ev st = Inr st)
       \<and> (run a g os init = Inr st' \<and> sockets st' c = Some v
          \<longrightarrow> c \<in> membersOf st' (user_room (user_id v)))"
proof -
  have "run a g os init = Inr st' \<and> sockets st' c = Some v
        \<longrightarrow> c \<in> membersOf st' (user_room (user_id v))"
    using run_in_own_room [OF _ in_own_room_init] by (auto simp: in_own_room_def)
  then show ?thesis
    using assms
    by (simp add: connect_def membersOf_connection roomsOf_connection receive_def)
qed

theorem C7_witness:
  "connect example_auth 11 (Some ''token-alice'') init = (None, connection 11 alice init)
   \<and> sockets (connection 11 alice init) 11 = Some alice
   \<and> 11 \<in> membersOf (connection 11 alice init) ''user_7''
   \<and> ''user_7'' \<in> roomsOf (connection 11 alice init) 11
   \<and> receive example_engine example_env 11 (Log_activity (Some (car_trip 10))) init = Inr init
   \<and> run example_auth example_engine [Connects 11 (Some ''token-alice'')] init
     = Inr (connection 11 alice init)"
proof -
  have 1: "io_use example_auth (Some ''token-alice'') = Inr alice"
    by (simp add: io_use_def example_auth_def)
  have 2: "user_room (user_id alice) = ''user_7''"
    by (simp add: user_room_def alice_def)
  have 3: "sockets init 11 = None"
    by simp
  have 4: "run example_auth example_engine [Connects 11 (Some ''token-alice'')] init
           = Inr (connection 11 alice init)"
    by (simp add: connect_def 1)
  have 5: "sockets (connection 11 alice init) 11 = Some alice"
    by simp
  show ?thesis
    using C7_connection_binds_and_joins
            [OF 1, of 11 init example_engine example_env "Log_activity (Some (car_trip 10))"
               "[Connects 11 (Some ''token-alice'')]" "connection 11 alice init" 11 alice]
          2 3 4 5
    by simp
qed

end
